theory Spec2Isabelle
  imports Main "HOL-Library.Sublist" "HOL-Library.Multiset"
begin

section \<open>fungen: a generator of list types and their functional methods\<close>

text \<open>
  The Go program \<^verbatim>\<open>fungen.go\<close> reads a package name, a type specification, a methods
  specification and an output name, and writes one Go file that declares, for every
  requested type, a list type with the selected methods. This theory embeds the generator
  (\<^verbatim>\<open>getTypeMap\<close>, \<^verbatim>\<open>getMethodsMap\<close>, \<^verbatim>\<open>generate\<close>, the fourteen templates and
  \<^verbatim>\<open>main\<close>) and the Go methods written in the templates whose run-time behaviour is
  specified (\<^verbatim>\<open>Take\<close>, \<^verbatim>\<open>Drop\<close>, \<^verbatim>\<open>TakeWhile\<close>, \<^verbatim>\<open>DropWhile\<close>, \<^verbatim>\<open>Reduce\<close>,
  \<^verbatim>\<open>ReduceRight\<close>).

  Go strings are byte sequences and so are HOL strings. \<^verbatim>\<open>fmt.Sprintf\<close> with the verbs
  \<^verbatim>\<open>%[n]s\<close> substitutes the n-th argument; it is written as concatenation. Every template
  uses explicit argument indexes, so an argument that no verb names is ignored.
\<close>

subsection \<open>The pieces of Go's library that the generator calls\<close>

text \<open>
  \<^verbatim>\<open>strings.Split(s, sep)\<close> with a separator of one byte (the program only splits at
  a comma and at a colon). The result is never empty: the empty string splits into one
  empty field.
\<close>

fun strings_Split :: "string \<Rightarrow> char \<Rightarrow> string list" where
  "strings_Split [] sep = [[]]"
| "strings_Split (c # cs) sep =
     (if c = sep then [] # strings_Split cs sep
      else (case strings_Split cs sep of
              [] \<Rightarrow> [[c]]
            | field # fields \<Rightarrow> (c # field) # fields))"

text \<open>
  \<^verbatim>\<open>strings.Title\<close> maps the first letter of every word to its title case; a word
  starts after a separator, and the string starts as if after a space. On a string of
  bytes below 0x80 every byte is a character, the separators are all bytes but letters,
  digits and the underscore, and the title case of a lower-case letter is the upper-case
  letter; \<^verbatim>\<open>isSeparator\<close> and \<^verbatim>\<open>ToTitle\<close> are the library's functions of these names on
  such bytes, the only ones they are applied to. On a string with a byte from 0x80 on the
  library decodes UTF-8 and consults Unicode's tables of letters, digits, spaces and title
  case; these are not part of the program, and \<^verbatim>\<open>strings_Title\<close> takes what the
  library returns on such strings as the function \<^verbatim>\<open>utitle\<close>.
\<close>

definition isSeparator :: "char \<Rightarrow> bool" where
  "isSeparator r =
     (let n = (of_char r :: nat) in
      if 48 \<le> n \<and> n \<le> 57 then False
      else if 97 \<le> n \<and> n \<le> 122 then False
      else if 65 \<le> n \<and> n \<le> 90 then False
      else if n = 95 then False
      else True)"

definition ToTitle :: "char \<Rightarrow> char" where
  "ToTitle r =
     (let n = (of_char r :: nat) in
      if 97 \<le> n \<and> n \<le> 122 then char_of (n - 32) else r)"

fun Title_from :: "char \<Rightarrow> string \<Rightarrow> string" where
  "Title_from prev [] = []"
| "Title_from prev (r # rs) =
     (if isSeparator prev then ToTitle r else r) # Title_from r rs"

definition isASCII :: "string \<Rightarrow> bool" where
  "isASCII s = list_all (\<lambda>c. (of_char c :: nat) < 0x80) s"

definition strings_Title :: "(string \<Rightarrow> string) \<Rightarrow> string \<Rightarrow> string" where
  "strings_Title utitle s = (if isASCII s then Title_from (CHR '' '') s else utitle s)"

subsection \<open>The registry of generators\<close>

record Generator =
  name :: string
  method_fn :: "string \<Rightarrow> string \<Rightarrow> string \<Rightarrow> string \<Rightarrow> string"
  needSync :: bool
  needMapToMap :: bool

text \<open>
  The field \<^verbatim>\<open>method\<close> of the source is \<^verbatim>\<open>method_fn\<close> here.

  The templates. Each takes the list name, the element type, the target type and the
  target type's name; all but \<^verbatim>\<open>getMapFunction\<close> and \<^verbatim>\<open>getPMapFunction\<close> ignore the
  last two. These two call \<^verbatim>\<open>strings.Title\<close> and so come first with \<^verbatim>\<open>utitle\<close>.
\<close>

definition getMapFunction ::
  "(string \<Rightarrow> string) \<Rightarrow> string \<Rightarrow> string \<Rightarrow> string \<Rightarrow> string \<Rightarrow> string" where
  "getMapFunction utitle listName typeName targetType targetTypeName =
     (let targetListName = targetType @ ''List'';
          targetListName = (if targetTypeName = [] then listName else targetListName) in
      ''\<newline>'' @
      ''        // Map'' @ strings_Title utitle targetTypeName @ '' is a method on '' @ listName @ '' that takes a function of type '' @ typeName @ '' -> '' @ targetType @ '' and applies it to every member of '' @ listName @ ''\<newline>'' @
      ''        func (l '' @ listName @ '') Map'' @ strings_Title utitle targetTypeName @ ''(f func('' @ typeName @ '') '' @ targetType @ '') '' @ targetListName @ '' {\<newline>'' @
      ''            l2 := make('' @ targetListName @ '', len(l))\<newline>'' @
      ''            for i, t := range l {\<newline>'' @
      ''                l2[i] = f(t)\<newline>'' @
      ''            }\<newline>'' @
      ''            return l2\<newline>'' @
      ''        }\<newline>'' @
      ''        '')"

definition getPMapFunction ::
  "(string \<Rightarrow> string) \<Rightarrow> string \<Rightarrow> string \<Rightarrow> string \<Rightarrow> string \<Rightarrow> string" where
  "getPMapFunction utitle listName typeName targetType targetTypeName =
     (let targetListName = targetType @ ''List'';
          targetListName = (if targetTypeName = [] then listName else targetListName) in
      ''\<newline>'' @
      ''        // PMap'' @ strings_Title utitle targetTypeName @ '' is similar to Map'' @ strings_Title utitle targetTypeName @ '' except that it executes the function on each member in parallel.\<newline>'' @
      ''        func (l '' @ listName @ '') PMap'' @ strings_Title utitle targetTypeName @ ''(f func('' @ typeName @ '') '' @ targetType @ '') '' @ targetListName @ '' {\<newline>'' @
      ''            wg := sync.WaitGroup{}\<newline>'' @
      ''            l2 := make('' @ targetListName @ '', len(l))\<newline>'' @
      ''            for i, t := range l {\<newline>'' @
      ''                wg.Add(1)\<newline>'' @
      ''                go func(i int, t '' @ typeName @ ''){\<newline>'' @
      ''                    l2[i] = f(t)\<newline>'' @
      ''                    wg.Done()\<newline>'' @
      ''                }(i, t)\<newline>'' @
      ''            }\<newline>'' @
      ''            wg.Wait()\<newline>'' @
      ''            return l2\<newline>'' @
      ''        }\<newline>'' @
      ''        '')"

fun getFilterFunction :: "string \<Rightarrow> string \<Rightarrow> string \<Rightarrow> string \<Rightarrow> string" where
  "getFilterFunction listName typeName _ _ =
     ''\<newline>'' @
     ''        // Filter is a method on '' @ listName @ '' that takes a function of type '' @ typeName @ '' -> bool returns a list of type '' @ listName @ '' which contains all members from the original list for which the function returned true\<newline>'' @
     ''        func (l '' @ listName @ '') Filter(f func('' @ typeName @ '') bool) '' @ listName @ '' {\<newline>'' @
     ''            l2 := []'' @ typeName @ ''{}\<newline>'' @
     ''            for _, t := range l {\<newline>'' @
     ''                if f(t) {\<newline>'' @
     ''                    l2 = append(l2, t)\<newline>'' @
     ''                }\<newline>'' @
     ''            }\<newline>'' @
     ''            return l2\<newline>'' @
     ''        }\<newline>'' @
     ''        ''"

declare getFilterFunction.simps [simp del]

fun getPFilterFunction :: "string \<Rightarrow> string \<Rightarrow> string \<Rightarrow> string \<Rightarrow> string" where
  "getPFilterFunction listName typeName _ _ =
     ''\<newline>'' @
     ''        // PFilter is similar to the Filter method except that the filter is applied to all the elements in parallel. The order of resulting elements cannot be guaranteed. \<newline>'' @
     ''        func (l '' @ listName @ '') PFilter(f func('' @ typeName @ '') bool) '' @ listName @ '' {\<newline>'' @
     ''            wg := sync.WaitGroup{}\<newline>'' @
     ''            mutex := sync.Mutex{}\<newline>'' @
     ''            l2 := []'' @ typeName @ ''{}\<newline>'' @
     ''            for _, t := range l {\<newline>'' @
     ''                wg.Add(1)\<newline>'' @
     ''                go func(t '' @ typeName @ ''){\<newline>'' @
     ''                    if f(t) {\<newline>'' @
     ''                        mutex.Lock()\<newline>'' @
     ''                        l2 = append(l2, t)\<newline>'' @
     ''                        mutex.Unlock()\<newline>'' @
     ''                    }            \<newline>'' @
     ''                    wg.Done()\<newline>'' @
     ''                }(t)\<newline>'' @
     ''            }\<newline>'' @
     ''            wg.Wait()\<newline>'' @
     ''            return l2\<newline>'' @
     ''        }\<newline>'' @
     ''        ''"

declare getPFilterFunction.simps [simp del]

fun getEachFunction :: "string \<Rightarrow> string \<Rightarrow> string \<Rightarrow> string \<Rightarrow> string" where
  "getEachFunction listName typeName _ _ =
     ''\<newline>'' @
     ''        // Each is a method on '' @ listName @ '' that takes a function of type '' @ typeName @ '' -> void and applies the function to each member of the list and then returns the original list.\<newline>'' @
     ''        func (l '' @ listName @ '') Each(f func('' @ typeName @ '')) '' @ listName @ '' {\<newline>'' @
     ''            for _, t := range l {\<newline>'' @
     ''                f(t) \<newline>'' @
     ''            }\<newline>'' @
     ''            return l\<newline>'' @
     ''        }\<newline>'' @
     ''        ''"

declare getEachFunction.simps [simp del]

fun getEachIFunction :: "string \<Rightarrow> string \<Rightarrow> string \<Rightarrow> string \<Rightarrow> string" where
  "getEachIFunction listName typeName _ _ =
     ''\<newline>'' @
     ''        // EachI is a method on '' @ listName @ '' that takes a function of type (int, '' @ typeName @ '') -> void and applies the function to each member of the list and then returns the original list. The int parameter to the function is the index of the element.\<newline>'' @
     ''        func (l '' @ listName @ '') EachI(f func(int, '' @ typeName @ '')) '' @ listName @ '' {\<newline>'' @
     ''            for i, t := range l {\<newline>'' @
     ''                f(i, t) \<newline>'' @
     ''            }\<newline>'' @
     ''            return l\<newline>'' @
     ''        }\<newline>'' @
     ''        ''"

declare getEachIFunction.simps [simp del]

fun getDropWhileFunction :: "string \<Rightarrow> string \<Rightarrow> string \<Rightarrow> string \<Rightarrow> string" where
  "getDropWhileFunction listName typeName _ _ =
     ''\<newline>'' @
     ''        // DropWhile is a method on '' @ listName @ '' that takes a function of type '' @ typeName @ '' -> bool and returns a list of type '' @ listName @ '' which excludes the first members from the original list for which the function returned true\<newline>'' @
     ''        func (l '' @ listName @ '') DropWhile(f func('' @ typeName @ '') bool) '' @ listName @ '' {\<newline>'' @
     ''            for i, t := range l {\<newline>'' @
     ''                if !f(t) {\<newline>'' @
     ''                    return l[i:]\<newline>'' @
     ''                }\<newline>'' @
     ''            }\<newline>'' @
     ''            var l2 '' @ listName @ ''\<newline>'' @
     ''            return l2\<newline>'' @
     ''        }\<newline>'' @
     ''        ''"

declare getDropWhileFunction.simps [simp del]

fun getTakeWhileFunction :: "string \<Rightarrow> string \<Rightarrow> string \<Rightarrow> string \<Rightarrow> string" where
  "getTakeWhileFunction listName typeName _ _ =
     ''\<newline>'' @
     ''        // TakeWhile is a method on '' @ listName @ '' that takes a function of type '' @ typeName @ '' -> bool and returns a list of type '' @ listName @ '' which includes only the first members from the original list for which the function returned true\<newline>'' @
     ''        func (l '' @ listName @ '') TakeWhile(f func('' @ typeName @ '') bool) '' @ listName @ '' {\<newline>'' @
     ''            for i, t := range l {\<newline>'' @
     ''                if !f(t) {\<newline>'' @
     ''                    return l[:i]\<newline>'' @
     ''                }\<newline>'' @
     ''            }\<newline>'' @
     ''            return l\<newline>'' @
     ''        }\<newline>'' @
     ''        ''"

declare getTakeWhileFunction.simps [simp del]

fun getTakeFunction :: "string \<Rightarrow> string \<Rightarrow> string \<Rightarrow> string \<Rightarrow> string" where
  "getTakeFunction listName typeName _ _ =
     ''\<newline>'' @
     ''        // Take is a method on '' @ listName @ '' that takes an integer n and returns the first n elements of the original list. If the list contains fewer than n elements then the entire list is returned.\<newline>'' @
     ''        func (l '' @ listName @ '') Take(n int) '' @ listName @ '' {\<newline>'' @
     ''            if len(l) >= n {\<newline>'' @
     ''                return l[:n]\<newline>'' @
     ''            }\<newline>'' @
     ''            return l\<newline>'' @
     ''        }\<newline>'' @
     ''        ''"

declare getTakeFunction.simps [simp del]

fun getDropFunction :: "string \<Rightarrow> string \<Rightarrow> string \<Rightarrow> string \<Rightarrow> string" where
  "getDropFunction listName typeName _ _ =
     ''\<newline>'' @
     ''        // Drop is a method on '' @ listName @ '' that takes an integer n and returns all but the first n elements of the original list. If the list contains fewer than n elements then an empty list is returned.\<newline>'' @
     ''        func (l '' @ listName @ '') Drop(n int) '' @ listName @ '' {\<newline>'' @
     ''            if len(l) >= n {\<newline>'' @
     ''                return l[n:]\<newline>'' @
     ''            }\<newline>'' @
     ''            var l2 '' @ listName @ ''\<newline>'' @
     ''            return l2\<newline>'' @
     ''        }\<newline>'' @
     ''        ''"

declare getDropFunction.simps [simp del]

fun getReduceFunction :: "string \<Rightarrow> string \<Rightarrow> string \<Rightarrow> string \<Rightarrow> string" where
  "getReduceFunction listName typename _ _ =
     ''\<newline>'' @
     ''        // Reduce is a method on '' @ listName @ '' that takes a function of type ('' @ typename @ '', '' @ typename @ '') -> '' @ typename @ '' and returns a '' @ typename @ '' which is the result of applying the function to all members of the original list starting from the first member\<newline>'' @
     ''        func (l '' @ listName @ '') Reduce(t1 '' @ typename @ '', f func('' @ typename @ '', '' @ typename @ '') '' @ typename @ '') '' @ typename @ '' {\<newline>'' @
     ''            for _, t := range l {\<newline>'' @
     ''                t1 = f(t1, t)\<newline>'' @
     ''            }\<newline>'' @
     ''            return t1\<newline>'' @
     ''        }\<newline>'' @
     ''        ''"

declare getReduceFunction.simps [simp del]

fun getReduceRightFunction :: "string \<Rightarrow> string \<Rightarrow> string \<Rightarrow> string \<Rightarrow> string" where
  "getReduceRightFunction listName typename _ _ =
     ''\<newline>'' @
     ''        // ReduceRight is a method on '' @ listName @ '' that takes a function of type ('' @ typename @ '', '' @ typename @ '') -> '' @ typename @ '' and returns a '' @ typename @ '' which is the result of applying the function to all members of the original list starting from the last member\<newline>'' @
     ''        func (l '' @ listName @ '') ReduceRight(t1 '' @ typename @ '', f func('' @ typename @ '', '' @ typename @ '') '' @ typename @ '') '' @ typename @ '' {\<newline>'' @
     ''            for i := len(l) - 1; i >= 0; i-- {\<newline>'' @
     ''                t := l[i]\<newline>'' @
     ''                t1 = f(t, t1)\<newline>'' @
     ''            }\<newline>'' @
     ''            return t1\<newline>'' @
     ''        }\<newline>'' @
     ''        ''"

declare getReduceRightFunction.simps [simp del]

fun getAllFunction :: "string \<Rightarrow> string \<Rightarrow> string \<Rightarrow> string \<Rightarrow> string" where
  "getAllFunction listName typename _ _ =
     ''\<newline>'' @
     ''        // All is a method on '' @ listName @ '' that returns true if all the members of the list satisfy a function or if the list is empty. \<newline>'' @
     ''        func (l '' @ listName @ '') All(f func('' @ typename @ '') bool) bool {\<newline>'' @
     ''            for _, t := range l {\<newline>'' @
     ''                if !f(t) {\<newline>'' @
     ''                    return false\<newline>'' @
     ''                }\<newline>'' @
     ''            }\<newline>'' @
     ''            return true\<newline>'' @
     ''        }\<newline>'' @
     ''        ''"

declare getAllFunction.simps [simp del]

fun getAnyFunction :: "string \<Rightarrow> string \<Rightarrow> string \<Rightarrow> string \<Rightarrow> string" where
  "getAnyFunction listName typename _ _ =
     ''\<newline>'' @
     ''        // Any is a method on '' @ listName @ '' that returns true if at least one member of the list satisfies a function. It returns false if the list is empty. \<newline>'' @
     ''        func (l '' @ listName @ '') Any(f func('' @ typename @ '') bool) bool {\<newline>'' @
     ''            for _, t := range l {\<newline>'' @
     ''                if f(t) {\<newline>'' @
     ''                    return true\<newline>'' @
     ''                }\<newline>'' @
     ''            }\<newline>'' @
     ''            return false\<newline>'' @
     ''        }\<newline>'' @
     ''        ''"

declare getAnyFunction.simps [simp del]

text \<open>
  The registry. Two of its templates call \<^verbatim>\<open>strings.Title\<close>, so the registry and
  what reads it (\<^verbatim>\<open>getMethodsMap\<close>, \<^verbatim>\<open>generate\<close>, \<^verbatim>\<open>main\<close>) come with \<^verbatim>\<open>utitle\<close>.
\<close>

definition generators :: "(string \<Rightarrow> string) \<Rightarrow> Generator list" where
  "generators utitle =
     [\<lparr>name = ''Map'', method_fn = getMapFunction utitle, needSync = False, needMapToMap = True\<rparr>,
      \<lparr>name = ''PMap'', method_fn = getPMapFunction utitle, needSync = True, needMapToMap = True\<rparr>,
      \<lparr>name = ''Filter'', method_fn = getFilterFunction, needSync = False, needMapToMap = False\<rparr>,
      \<lparr>name = ''PFilter'', method_fn = getPFilterFunction, needSync = True, needMapToMap = False\<rparr>,
      \<lparr>name = ''Reduce'', method_fn = getReduceFunction, needSync = False, needMapToMap = False\<rparr>,
      \<lparr>name = ''ReduceRight'', method_fn = getReduceRightFunction, needSync = False, needMapToMap = False\<rparr>,
      \<lparr>name = ''Take'', method_fn = getTakeFunction, needSync = False, needMapToMap = False\<rparr>,
      \<lparr>name = ''TakeWhile'', method_fn = getTakeWhileFunction, needSync = False, needMapToMap = False\<rparr>,
      \<lparr>name = ''Drop'', method_fn = getDropFunction, needSync = False, needMapToMap = False\<rparr>,
      \<lparr>name = ''DropWhile'', method_fn = getDropWhileFunction, needSync = False, needMapToMap = False\<rparr>,
      \<lparr>name = ''Each'', method_fn = getEachFunction, needSync = False, needMapToMap = False\<rparr>,
      \<lparr>name = ''EachI'', method_fn = getEachIFunction, needSync = False, needMapToMap = False\<rparr>,
      \<lparr>name = ''All'', method_fn = getAllFunction, needSync = False, needMapToMap = False\<rparr>,
      \<lparr>name = ''Any'', method_fn = getAnyFunction, needSync = False, needMapToMap = False\<rparr>]"

text \<open>
  Modelled from the spec: the method \<^verbatim>\<open>Filter\<close> of \<^verbatim>\<open>GeneratorList\<close> is in the file
  that fungen generates for itself
  (\<^verbatim>\<open>go:generate fungen -types "Generator" -methods Filter,Each\<close>), which is not among the
  sources. It is the \<^verbatim>\<open>Filter\<close> template above at the type \<^verbatim>\<open>Generator\<close>: it keeps the
  members for which the function returns true, in their order.
\<close>

definition GeneratorList_Filter :: "Generator list \<Rightarrow> (Generator \<Rightarrow> bool) \<Rightarrow> Generator list" where
  "GeneratorList_Filter l f = filter f l"

text \<open>
  Modelled from the spec: the method \<^verbatim>\<open>Each\<close> of \<^verbatim>\<open>GeneratorList\<close> is in the same
  generated file. It is the \<^verbatim>\<open>Each\<close> template above at the type \<^verbatim>\<open>Generator\<close>: it
  applies the function to every member in order (and returns the list, which no caller
  uses). The function given to it is a closure that updates a variable of its caller; here
  the function takes that variable's value and returns the new one, and so does
  \<^verbatim>\<open>GeneratorList_Each\<close>.
\<close>

definition GeneratorList_Each :: "Generator list \<Rightarrow> (Generator \<Rightarrow> 's \<Rightarrow> 's) \<Rightarrow> 's \<Rightarrow> 's" where
  "GeneratorList_Each l f s = fold f l s"

subsection \<open>Errors that end the run\<close>

text \<open>
  \<^verbatim>\<open>Usage\<close> is the usage message followed by \<^verbatim>\<open>os.Exit(2)\<close>; \<^verbatim>\<open>Fatal msg\<close> is
  \<^verbatim>\<open>log.Fatalf\<close> (or \<^verbatim>\<open>log.Fatal\<close>) with the formatted message \<^verbatim>\<open>msg\<close>, which prints
  it and exits with status 1.
\<close>

datatype error = Usage | Fatal string

subsection \<open>Reading the configuration\<close>

text \<open>
  The two maps are Go maps: partial functions. In \<^verbatim>\<open>getTypeMap\<close> a later entry for the
  same type overwrites an earlier one. A field list is never empty (see
  \<^verbatim>\<open>strings_Split\<close>), so its first case below is never taken.
\<close>

definition setType :: "(string \<rightharpoonup> string) \<Rightarrow> string \<Rightarrow> (string \<rightharpoonup> string)" where
  "setType m t =
     (case strings_Split t (CHR '':'') of
        [] \<Rightarrow> m
      | [t0] \<Rightarrow> m(t0 \<mapsto> t0)
      | t0 # t1 # _ \<Rightarrow> m(t0 \<mapsto> t1))"

definition getTypeMap :: "string \<Rightarrow> (string \<rightharpoonup> string)" where
  "getTypeMap targets =
     (if targets = [] then Map.empty
      else foldl setType Map.empty (strings_Split targets (CHR '','')))"

fun selectMethods ::
  "(string \<rightharpoonup> bool) \<Rightarrow> (string \<rightharpoonup> bool) \<Rightarrow> string list \<Rightarrow> error + (string \<rightharpoonup> bool)" where
  "selectMethods validMethods result [] = Inr result"
| "selectMethods validMethods result (method' # rest) =
     (case validMethods method' of
        Some _ \<Rightarrow> selectMethods validMethods (result(method' \<mapsto> True)) rest
      | None \<Rightarrow>
          Inl (Fatal (''Error: -method parameter '' @ [CHR 0x27] @ method' @ [CHR 0x27] @
                      '' is not valid'')))"

definition getMethodsMap :: "(string \<Rightarrow> string) \<Rightarrow> string \<Rightarrow> error + (string \<rightharpoonup> bool)" where
  "getMethodsMap utitle methodsStr =
     (if methodsStr = [] then
        Inr (GeneratorList_Each (generators utitle) (\<lambda>gen result. result(name gen \<mapsto> True)) Map.empty)
      else
        (let validMethods =
               GeneratorList_Each (generators utitle) (\<lambda>gen valid. valid(name gen \<mapsto> True)) Map.empty
         in selectMethods validMethods Map.empty (strings_Split methodsStr (CHR '',''))))"

subsection \<open>Iterating over a Go map\<close>

text \<open>
  \<^verbatim>\<open>for k, v := range m\<close> visits every key of \<^verbatim>\<open>m\<close> once, in an order that the language
  leaves unspecified and that the runtime varies from one loop to the next. The order of
  one loop is a list of keys given to the model; \<^verbatim>\<open>range_order m ks\<close> says that \<^verbatim>\<open>ks\<close> is
  an order in which the loop can visit \<^verbatim>\<open>m\<close>.
\<close>

definition range_order :: "('k \<rightharpoonup> 'v) \<Rightarrow> 'k list \<Rightarrow> bool" where
  "range_order m ks \<longleftrightarrow> distinct ks \<and> set ks = dom m"

subsection \<open>Expanding one type\<close>

text \<open>
  The loop over the type map inside \<^verbatim>\<open>generate\<close>, for one generator whose
  \<^verbatim>\<open>needMapToMap\<close> is set: \<^verbatim>\<open>ks\<close> is the order of this loop, \<^verbatim>\<open>code\<close> the text so far.
\<close>

fun generateMapToMap ::
  "Generator \<Rightarrow> string \<Rightarrow> string \<Rightarrow> (string \<rightharpoonup> string) \<Rightarrow> string list \<Rightarrow> string \<Rightarrow> string" where
  "generateMapToMap gen typeName listname m [] code = code"
| "generateMapToMap gen typeName listname m (k # ks) code =
     (case m k of
        None \<Rightarrow> generateMapToMap gen typeName listname m ks code
      | Some v \<Rightarrow>
          (let targetTypeName = v;
               targetTypeName = (if k = typeName then [] else targetTypeName)
           in generateMapToMap gen typeName listname m ks
                (code @ method_fn gen listname typeName k targetTypeName)))"

text \<open>
  \<^verbatim>\<open>generate\<close>; \<^verbatim>\<open>ord\<close> gives, for the name of a generator, the order in which that
  generator's loop visits the type map.
\<close>

definition generate ::
  "(string \<Rightarrow> string) \<Rightarrow> string \<Rightarrow> string \<Rightarrow> (string \<rightharpoonup> string) \<Rightarrow> (string \<rightharpoonup> bool) \<Rightarrow> (string \<Rightarrow> string list) \<Rightarrow> string" where
  "generate utitle typeName listname m methodsMap ord =
     (let code =
            ''\<newline>'' @
            ''            \<newline>'' @
            ''            // '' @ listname @ '' is the type for a list that holds members of type '' @ typeName @ ''\<newline>'' @
            ''            type '' @ listname @ '' []'' @ typeName @ ''\<newline>'' @
            ''            ''
      in GeneratorList_Each
           (GeneratorList_Filter (generators utitle) (\<lambda>gen. methodsMap (name gen) \<noteq> None))
           (\<lambda>gen code.
              if needMapToMap gen then
                generateMapToMap gen typeName listname m (ord (name gen)) code
              else code @ method_fn gen listname typeName [] [])
           code)"

subsection \<open>The run\<close>

text \<open>
  \<^verbatim>\<open>format.Source\<close> of Go's library and \<^verbatim>\<open>ioutil.WriteFile\<close> are not part of the
  program: the formatter is a function \<^verbatim>\<open>Source\<close> from a text to an error message or the
  formatted text, and the writer a function \<^verbatim>\<open>WriteFile\<close> from a file name and a text to
  an error message, if it fails.
\<close>

text \<open>The function \<^verbatim>\<open>f\<close> of the program, under a longer name.\<close>

definition f_format :: "(string \<Rightarrow> string + string) \<Rightarrow> string \<Rightarrow> error + string" where
  "f_format Source s = (case Source s of Inl err \<Rightarrow> Inl (Fatal err) | Inr formatted \<Rightarrow> Inr formatted)"

definition needImportSync :: "(string \<Rightarrow> string) \<Rightarrow> (string \<rightharpoonup> bool) \<Rightarrow> bool" where
  "needImportSync utitle methodsMap \<longleftrightarrow>
     length (GeneratorList_Filter (generators utitle) (\<lambda>gen.
        (let selectedMethod = (case methodsMap (name gen) of None \<Rightarrow> False | Some b \<Rightarrow> b)
         in selectedMethod \<and> needSync gen))) > 0"

text \<open>
  The start of \<^verbatim>\<open>main\<close>: the text before the first type, with the import of
  \<^verbatim>\<open>sync\<close> when a selected generator needs it.
\<close>

definition header :: "(string \<Rightarrow> string) \<Rightarrow> string \<Rightarrow> (string \<rightharpoonup> bool) \<Rightarrow> string" where
  "header utitle packageName methodsMap =
     (let importSync = [];
          importSync = (if needImportSync utitle methodsMap
                        then ''import '' @ [CHR 0x22] @ ''sync'' @ [CHR 0x22] else importSync)
      in
     ''// Package '' @ packageName @ '' - generated by fungen; DO NOT EDIT\<newline>'' @
     ''            package '' @ packageName @ ''\<newline>'' @
     ''            \<newline>'' @
     ''            '' @ importSync @ ''\<newline>'' @
     [CHR 0x09] @ [CHR 0x09] @ [CHR 0x09] @ ''\<newline>'' @
     ''            '')"

text \<open>
  The loop of \<^verbatim>\<open>main\<close> over the type map: \<^verbatim>\<open>ks\<close> is the order of this loop and
  \<^verbatim>\<open>ord k1\<close> the orders of the loops inside \<^verbatim>\<open>generate\<close> for the type \<^verbatim>\<open>k1\<close>. A failure
  of the formatter ends the run.
\<close>

fun generateAll ::
  "(string \<Rightarrow> string) \<Rightarrow> (string \<Rightarrow> string + string) \<Rightarrow> (string \<rightharpoonup> string) \<Rightarrow> (string \<rightharpoonup> bool) \<Rightarrow>
   (string \<Rightarrow> string \<Rightarrow> string list) \<Rightarrow> string list \<Rightarrow> string \<Rightarrow> error + string" where
  "generateAll utitle Source typeMap methodsMap ord [] src = Inr src"
| "generateAll utitle Source typeMap methodsMap ord (k1 # ks) src =
     (case typeMap k1 of
        None \<Rightarrow> generateAll utitle Source typeMap methodsMap ord ks src
      | Some v1 \<Rightarrow>
          (case f_format Source (src @ generate utitle k1 (v1 @ ''List'') typeMap methodsMap (ord k1)) of
             Inl e \<Rightarrow> Inl e
           | Inr src' \<Rightarrow> generateAll utitle Source typeMap methodsMap ord ks src'))"

text \<open>
  What a run that succeeds leaves behind: with \<^verbatim>\<open>-test\<close> the output name and the text
  on standard output (\<^verbatim>\<open>fmt.Println\<close> twice), otherwise the text in the file of that name.
\<close>

datatype outcome = Printed string | Written string string

definition main ::
  "(string \<Rightarrow> string) \<Rightarrow> (string \<Rightarrow> string + string) \<Rightarrow> (string \<Rightarrow> string \<Rightarrow> string option) \<Rightarrow>
   string \<Rightarrow> string \<Rightarrow> string \<Rightarrow> string \<Rightarrow> bool \<Rightarrow>
   string list \<Rightarrow> (string \<Rightarrow> string \<Rightarrow> string list) \<Rightarrow> error + outcome" where
  "main utitle Source WriteFile packageName types methods outputName testrun ks ord =
     (if length types = 0 then Inl Usage
      else
        (case getMethodsMap utitle methods of
           Inl e \<Rightarrow> Inl e
         | Inr methodsMap \<Rightarrow>
             (let src = header utitle packageName methodsMap;
                  typeMap = getTypeMap types
              in case generateAll utitle Source typeMap methodsMap ord ks src of
                   Inl e \<Rightarrow> Inl e
                 | Inr src \<Rightarrow>
                     if testrun then Inr (Printed (outputName @ ''\<newline>'' @ src @ ''\<newline>''))
                     else
                       (case WriteFile outputName src of
                          Some err \<Rightarrow> Inl (Fatal (''writing output: '' @ err))
                        | None \<Rightarrow> Inr (Written outputName src)))))"

section \<open>The calls of the templates\<close>

text \<open>
  \<^verbatim>\<open>generate\<close> appends to its text the result of one call \<^verbatim>\<open>gen.method(...)\<close> after
  the other. A call is the generator with its four arguments, and \<^verbatim>\<open>generateCalls\<close> lists
  the calls that \<^verbatim>\<open>generate\<close> makes, in the order it makes them; \<^verbatim>\<open>expansion\<close> lists the
  calls of a whole run, whose loop in \<^verbatim>\<open>main\<close> visits the types in the order \<^verbatim>\<open>ks\<close>.
  The text of \<^verbatim>\<open>generate\<close> is the declaration of the list type followed by the rendered
  calls (lemma \<^verbatim>\<open>generate_renders_calls\<close> below).
\<close>

type_synonym call = "Generator \<times> string \<times> string \<times> string \<times> string"

definition render :: "call \<Rightarrow> string" where
  "render c =
     (case c of (gen, listName, typeName, targetType, targetTypeName) \<Rightarrow>
        method_fn gen listName typeName targetType targetTypeName)"

fun mapToMapCalls ::
  "Generator \<Rightarrow> string \<Rightarrow> string \<Rightarrow> (string \<rightharpoonup> string) \<Rightarrow> string list \<Rightarrow> call list" where
  "mapToMapCalls gen typeName listname m [] = []"
| "mapToMapCalls gen typeName listname m (k # ks) =
     (case m k of
        None \<Rightarrow> mapToMapCalls gen typeName listname m ks
      | Some v \<Rightarrow>
          (gen, listname, typeName, k, if k = typeName then [] else v)
            # mapToMapCalls gen typeName listname m ks)"

definition generatorCalls ::
  "string \<Rightarrow> string \<Rightarrow> (string \<rightharpoonup> string) \<Rightarrow> (string \<Rightarrow> string list) \<Rightarrow> Generator \<Rightarrow> call list" where
  "generatorCalls typeName listname m ord gen =
     (if needMapToMap gen then mapToMapCalls gen typeName listname m (ord (name gen))
      else [(gen, listname, typeName, [], [])])"

text \<open>The generators that a methods map selects, as \<^verbatim>\<open>generate\<close> filters them.\<close>

definition selected :: "(string \<Rightarrow> string) \<Rightarrow> (string \<rightharpoonup> bool) \<Rightarrow> Generator list" where
  "selected utitle methodsMap = GeneratorList_Filter (generators utitle) (\<lambda>gen. methodsMap (name gen) \<noteq> None)"

definition generateCalls ::
  "(string \<Rightarrow> string) \<Rightarrow> string \<Rightarrow> string \<Rightarrow> (string \<rightharpoonup> string) \<Rightarrow> (string \<rightharpoonup> bool) \<Rightarrow> (string \<Rightarrow> string list) \<Rightarrow> call list" where
  "generateCalls utitle typeName listname m methodsMap ord =
     concat (map (generatorCalls typeName listname m ord) (selected utitle methodsMap))"

definition typeDecl :: "string \<Rightarrow> string \<Rightarrow> string" where
  "typeDecl typeName listname =
     ''\<newline>'' @
     ''            \<newline>'' @
     ''            // '' @ listname @ '' is the type for a list that holds members of type '' @ typeName @ ''\<newline>'' @
     ''            type '' @ listname @ '' []'' @ typeName @ ''\<newline>'' @
     ''            ''"

definition sectionCalls ::
  "(string \<Rightarrow> string) \<Rightarrow> (string \<rightharpoonup> string) \<Rightarrow> (string \<rightharpoonup> bool) \<Rightarrow> (string \<Rightarrow> string \<Rightarrow> string list) \<Rightarrow> string \<Rightarrow> call list" where
  "sectionCalls utitle typeMap methodsMap ord k1 =
     (case typeMap k1 of
        None \<Rightarrow> []
      | Some v1 \<Rightarrow> generateCalls utitle k1 (v1 @ ''List'') typeMap methodsMap (ord k1))"

definition expansion ::
  "(string \<Rightarrow> string) \<Rightarrow> (string \<rightharpoonup> string) \<Rightarrow> (string \<rightharpoonup> bool) \<Rightarrow> (string \<Rightarrow> string \<Rightarrow> string list) \<Rightarrow> string list \<Rightarrow> call list" where
  "expansion utitle typeMap methodsMap ord ks =
     concat (map (sectionCalls utitle typeMap methodsMap ord) ks)"

section \<open>The text of a run\<close>

text \<open>
  The loop of \<^verbatim>\<open>main\<close> appends the text of \<^verbatim>\<open>generate\<close> for one type after the other
  and formats the whole text after each. \<^verbatim>\<open>sectionText\<close> is the declaration of a type's
  list type followed by the rendered calls of its section; \<^verbatim>\<open>formatEach\<close> appends the
  texts of a list one by one to a text, formatting after each, and ends with
  \<^verbatim>\<open>log.Fatal\<close> when the formatter fails; \<^verbatim>\<open>deliver\<close> is what \<^verbatim>\<open>main\<close> does with the
  final text. Lemma \<^verbatim>\<open>main_formats_sections\<close> below shows that \<^verbatim>\<open>main\<close> is these three
  one after the other.
\<close>

definition sectionText ::
  "(string \<Rightarrow> string) \<Rightarrow> (string \<rightharpoonup> string) \<Rightarrow> (string \<rightharpoonup> bool) \<Rightarrow> (string \<Rightarrow> string \<Rightarrow> string list) \<Rightarrow> string \<Rightarrow> string" where
  "sectionText utitle typeMap methodsMap ord k1 =
     (case typeMap k1 of
        None \<Rightarrow> []
      | Some v1 \<Rightarrow>
          typeDecl k1 (v1 @ ''List'') @
          concat (map render (sectionCalls utitle typeMap methodsMap ord k1)))"

fun formatEach :: "(string \<Rightarrow> string + string) \<Rightarrow> string \<Rightarrow> string list \<Rightarrow> error + string" where
  "formatEach Source src [] = Inr src"
| "formatEach Source src (t # ts) =
     (case Source (src @ t) of
        Inl err \<Rightarrow> Inl (Fatal err)
      | Inr formatted \<Rightarrow> formatEach Source formatted ts)"

definition deliver ::
  "(string \<Rightarrow> string \<Rightarrow> string option) \<Rightarrow> string \<Rightarrow> bool \<Rightarrow> string \<Rightarrow> error + outcome" where
  "deliver WriteFile outputName testrun src =
     (if testrun then Inr (Printed (outputName @ ''\<newline>'' @ src @ ''\<newline>''))
      else
        (case WriteFile outputName src of
           Some err \<Rightarrow> Inl (Fatal (''writing output: '' @ err))
         | None \<Rightarrow> Inr (Written outputName src)))"

section \<open>Occurrences of a text\<close>



section \<open>The methods that the templates define\<close>

text \<open>
  A Go slice is a window on an array: \<^verbatim>\<open>elems\<close> are its members, from index 0 to its
  length, and \<^verbatim>\<open>spare\<close> what the array holds after them, up to the capacity. The
  argument \<^verbatim>\<open>n\<close> of \<^verbatim>\<open>Take\<close> and \<^verbatim>\<open>Drop\<close> is a Go \<^verbatim>\<open>int\<close>; the methods only compare
  it, so it is an integer here. A function given to a method is a pure function.
\<close>

record 'a slice =
  elems :: "'a list"
  spare :: "'a list"

datatype panic = SliceBoundsOutOfRange | IndexOutOfRange

definition len :: "'a slice \<Rightarrow> int" where
  "len l = int (length (elems l))"

definition cap :: "'a slice \<Rightarrow> int" where
  "cap l = int (length (elems l) + length (spare l))"

text \<open>The nil slice, the value of \<^verbatim>\<open>var l2\<close>.\<close>

definition nilSlice :: "'a slice" where
  "nilSlice = \<lparr>elems = [], spare = []\<rparr>"

text \<open>
  \<^verbatim>\<open>l[:n]\<close> needs \<^verbatim>\<open>0 <= n <= cap(l)\<close>, \<^verbatim>\<open>l[n:]\<close> needs \<^verbatim>\<open>0 <= n <= len(l)\<close> and
  \<^verbatim>\<open>l[i]\<close> needs \<^verbatim>\<open>0 <= i < len(l)\<close>; otherwise the run panics.
\<close>

definition sliceTo :: "'a slice \<Rightarrow> int \<Rightarrow> panic + 'a slice" where
  "sliceTo l n =
     (if 0 \<le> n \<and> n \<le> cap l then
        Inr \<lparr>elems = take (nat n) (elems l @ spare l), spare = drop (nat n) (elems l @ spare l)\<rparr>
      else Inl SliceBoundsOutOfRange)"

definition sliceFrom :: "'a slice \<Rightarrow> int \<Rightarrow> panic + 'a slice" where
  "sliceFrom l n =
     (if 0 \<le> n \<and> n \<le> len l then Inr \<lparr>elems = drop (nat n) (elems l), spare = spare l\<rparr>
      else Inl SliceBoundsOutOfRange)"

definition index :: "'a slice \<Rightarrow> int \<Rightarrow> panic + 'a" where
  "index l i = (if 0 \<le> i \<and> i < len l then Inr (elems l ! nat i) else Inl IndexOutOfRange)"

subsection \<open>Take and Drop\<close>

definition Take :: "'a slice \<Rightarrow> int \<Rightarrow> panic + 'a slice" where
  "Take l n = (if len l \<ge> n then sliceTo l n else Inr l)"

definition Drop :: "'a slice \<Rightarrow> int \<Rightarrow> panic + 'a slice" where
  "Drop l n = (if len l \<ge> n then sliceFrom l n else (let l2 = nilSlice in Inr l2))"

subsection \<open>TakeWhile and DropWhile\<close>

text \<open>
  \<^verbatim>\<open>for i, t := range l\<close>: the loop is at index \<^verbatim>\<open>i\<close> and the last argument holds the
  members from there on.
\<close>

fun TakeWhile_range :: "'a slice \<Rightarrow> ('a \<Rightarrow> bool) \<Rightarrow> int \<Rightarrow> 'a list \<Rightarrow> panic + 'a slice" where
  "TakeWhile_range l f i [] = Inr l"
| "TakeWhile_range l f i (t # ts) =
     (if \<not> f t then sliceTo l i else TakeWhile_range l f (i + 1) ts)"

definition TakeWhile :: "'a slice \<Rightarrow> ('a \<Rightarrow> bool) \<Rightarrow> panic + 'a slice" where
  "TakeWhile l f = TakeWhile_range l f 0 (elems l)"

fun DropWhile_range :: "'a slice \<Rightarrow> ('a \<Rightarrow> bool) \<Rightarrow> int \<Rightarrow> 'a list \<Rightarrow> panic + 'a slice" where
  "DropWhile_range l f i [] = (let l2 = nilSlice in Inr l2)"
| "DropWhile_range l f i (t # ts) =
     (if \<not> f t then sliceFrom l i else DropWhile_range l f (i + 1) ts)"

definition DropWhile :: "'a slice \<Rightarrow> ('a \<Rightarrow> bool) \<Rightarrow> panic + 'a slice" where
  "DropWhile l f = DropWhile_range l f 0 (elems l)"

subsection \<open>Reduce and ReduceRight\<close>

fun Reduce_range :: "('a \<Rightarrow> 'a \<Rightarrow> 'a) \<Rightarrow> 'a \<Rightarrow> 'a list \<Rightarrow> 'a" where
  "Reduce_range f t1 [] = t1"
| "Reduce_range f t1 (t # ts) = Reduce_range f (f t1 t) ts"

definition Reduce :: "'a slice \<Rightarrow> 'a \<Rightarrow> ('a \<Rightarrow> 'a \<Rightarrow> 'a) \<Rightarrow> 'a" where
  "Reduce l t1 f = Reduce_range f t1 (elems l)"

text \<open>\<^verbatim>\<open>for i := len(l) - 1; i >= 0; i--\<close>, with the index \<^verbatim>\<open>i\<close> and the accumulator.\<close>

function ReduceRight_for :: "'a slice \<Rightarrow> ('a \<Rightarrow> 'a \<Rightarrow> 'a) \<Rightarrow> int \<Rightarrow> 'a \<Rightarrow> panic + 'a" where
  "ReduceRight_for l f i t1 =
     (if i \<ge> 0 then
        (case index l i of
           Inl p \<Rightarrow> Inl p
         | Inr t \<Rightarrow> ReduceRight_for l f (i - 1) (f t t1))
      else Inr t1)"
  by pat_completeness auto
termination
  by (relation "measure (\<lambda>(l, f, i, t1). nat (i + 1))") auto

declare ReduceRight_for.simps [simp del]

definition ReduceRight :: "'a slice \<Rightarrow> 'a \<Rightarrow> ('a \<Rightarrow> 'a \<Rightarrow> 'a) \<Rightarrow> panic + 'a" where
  "ReduceRight l t1 f = ReduceRight_for l f (len l - 1) t1"

section \<open>Properties of the generator\<close>

subsection \<open>The text that generate and main build\<close>

lemma generateMapToMap_calls:
  "generateMapToMap gen typeName listname m ks code =
     code @ concat (map render (mapToMapCalls gen typeName listname m ks))"
  by (induction ks arbitrary: code) (simp_all add: render_def split: option.split)

lemma Each_renders_calls:
  "fold (\<lambda>gen code.
            if needMapToMap gen then
              generateMapToMap gen typeName listname m (ord (name gen)) code
            else code @ method_fn gen listname typeName [] []) gs code =
   code @ concat (map render (concat (map (generatorCalls typeName listname m ord) gs)))"
  by (induction gs arbitrary: code)
     (simp_all add: generatorCalls_def generateMapToMap_calls render_def)

lemma generate_renders_calls:
  "generate utitle typeName listname m methodsMap ord =
     typeDecl typeName listname @
     concat (map render (generateCalls utitle typeName listname m methodsMap ord))"
  by (simp add: generate_def generateCalls_def selected_def typeDecl_def GeneratorList_Each_def
        Each_renders_calls del: append_assoc)

lemma generateAll_passthrough:
  "generateAll utitle Inr typeMap methodsMap ord ks src =
     Inr (src @ concat (map (\<lambda>k1. case typeMap k1 of None \<Rightarrow> []
              | Some v1 \<Rightarrow> generate utitle k1 (v1 @ ''List'') typeMap methodsMap (ord k1)) ks))"
  by (induction ks arbitrary: src) (simp_all add: f_format_def split: option.split)

lemma generate_sectionText:
  "typeMap k1 = Some v1 \<Longrightarrow>
   generate utitle k1 (v1 @ ''List'') typeMap methodsMap (ord k1) =
     sectionText utitle typeMap methodsMap ord k1"
  by (simp add: sectionText_def sectionCalls_def generate_renders_calls)

lemma concat_render_concat:
  "concat (map render (concat (map h gs))) = concat (map (\<lambda>g. concat (map render (h g))) gs)"
  by (induction gs) simp_all

text \<open>
  The text of \<^verbatim>\<open>generate\<close> keeps the order of the registry: after the declaration come
  the units of the first selected generator, then those of the second, and so on.
\<close>

lemma generate_groups:
  "generate utitle typeName listname m methodsMap ord =
     typeDecl typeName listname @
     concat (map (\<lambda>gen. concat (map render (generatorCalls typeName listname m ord gen)))
               (selected utitle methodsMap))"
  by (simp add: generate_renders_calls generateCalls_def concat_render_concat)

text \<open>The loop of \<^verbatim>\<open>main\<close> and \<^verbatim>\<open>main\<close> itself, in terms of the sections.\<close>

lemma generateAll_formatEach:
  "set ks \<subseteq> dom typeMap \<Longrightarrow>
   generateAll utitle Source typeMap methodsMap ord ks src =
     formatEach Source src (map (sectionText utitle typeMap methodsMap ord) ks)"
proof (induction ks arbitrary: src)
  case Nil
  show ?case by simp
next
  case (Cons k1 ks)
  then obtain v1 where v1: "typeMap k1 = Some v1" and rest: "set ks \<subseteq> dom typeMap"
    by auto
  show ?case
    using Cons.IH [OF rest]
    by (simp add: v1 f_format_def generate_sectionText [where typeMap = typeMap, OF v1]
          split: sum.split)
qed

lemma main_formats_sections:
  assumes "types \<noteq> []"
    and "getMethodsMap utitle methods = Inr methodsMap"
    and "range_order (getTypeMap types) ks"
  shows "main utitle Source WriteFile packageName types methods outputName testrun ks ord =
     (case formatEach Source (header utitle packageName methodsMap)
             (map (sectionText utitle (getTypeMap types) methodsMap ord) ks) of
        Inl e \<Rightarrow> Inl e
      | Inr src \<Rightarrow> deliver WriteFile outputName testrun src)"
proof -
  have "set ks \<subseteq> dom (getTypeMap types)"
    using assms(3) by (simp add: range_order_def)
  from generateAll_formatEach [OF this]
  show ?thesis
    using assms(1,2)
    by (simp add: main_def Let_def deliver_def del: generateAll.simps split: sum.split)
qed

text \<open>Counting the calls.\<close>

lemma range_order_length: "range_order m ks \<Longrightarrow> length ks = card (dom m)"
  by (metis range_order_def distinct_card)

lemma mapToMapCalls_all:
  "set ks \<subseteq> dom m \<Longrightarrow>
   mapToMapCalls gen typeName listname m ks =
     map (\<lambda>k. (gen, listname, typeName, k, if k = typeName then [] else the (m k))) ks"
  by (induction ks) auto

lemma length_mapToMapCalls:
  "range_order m ks \<Longrightarrow> length (mapToMapCalls gen typeName listname m ks) = card (dom m)"
  using mapToMapCalls_all [of ks m] range_order_length [of m ks]
  by (simp add: range_order_def)

lemma fst_mapToMapCalls:
  "c \<in> set (mapToMapCalls gen typeName listname m ks) \<Longrightarrow> fst c = gen"
  by (induction ks) (auto split: option.splits)

lemma fst_generatorCalls:
  "c \<in> set (generatorCalls typeName listname m ord gen) \<Longrightarrow> fst c = gen"
  by (auto simp: generatorCalls_def dest: fst_mapToMapCalls split: if_splits)

lemma filter_generatorCalls:
  "filter (\<lambda>c. P (fst c)) (generatorCalls typeName listname m ord gen) =
     (if P gen then generatorCalls typeName listname m ord gen else [])"
  by (auto simp: filter_empty_conv dest: fst_generatorCalls intro: filter_True)

lemma length_filter_concat:
  "length (filter P (concat (map h gs))) = (\<Sum>g\<leftarrow>gs. length (filter P (h g)))"
  by (induction gs) simp_all

lemma sum_list_if_const:
  "(\<Sum>g\<leftarrow>gs. if Q g then (n::nat) else 0) = n * length (filter Q gs)"
  by (induction gs) simp_all

lemma generateCalls_cross:
  assumes "\<forall>g. range_order m (ord g)"
  shows "length (filter (\<lambda>c. needMapToMap (fst c)) (generateCalls utitle typeName listname m methodsMap ord)) =
         card (dom m) * length (filter needMapToMap (selected utitle methodsMap))"
proof -
  have "\<And>g. length (filter (\<lambda>c. needMapToMap (fst c)) (generatorCalls typeName listname m ord g)) =
       (if needMapToMap g then card (dom m) else 0)"
    using assms by (simp add: filter_generatorCalls) (simp add: generatorCalls_def length_mapToMapCalls)
  then show ?thesis
    by (simp add: generateCalls_def selected_def length_filter_concat sum_list_if_const)
qed

lemma generateCalls_single:
  "length (filter (\<lambda>c. \<not> needMapToMap (fst c)) (generateCalls utitle typeName listname m methodsMap ord)) =
     length (filter (\<lambda>g. \<not> needMapToMap g) (selected utitle methodsMap))"
proof -
  have "\<And>g. length (filter (\<lambda>c. \<not> needMapToMap (fst c)) (generatorCalls typeName listname m ord g)) =
       (if \<not> needMapToMap g then 1 else 0)"
    using filter_generatorCalls [of "\<lambda>g. \<not> needMapToMap g" typeName listname m ord]
    by (simp add: generatorCalls_def)
  then show ?thesis
    using sum_list_if_const [of "\<lambda>g. \<not> needMapToMap g" 1]
    by (simp add: generateCalls_def selected_def length_filter_concat)
qed

lemma expansion_counts:
  assumes ks: "range_order m ks" and ord: "\<forall>k1 g. range_order m (ord k1 g)"
  shows "length (filter (\<lambda>c. \<not> needMapToMap (fst c)) (expansion utitle m methodsMap ord ks)) =
           card (dom m) * length (filter (\<lambda>g. \<not> needMapToMap g) (selected utitle methodsMap))"
    and "length (filter (\<lambda>c. needMapToMap (fst c)) (expansion utitle m methodsMap ord ks)) =
           card (dom m) * card (dom m) * length (filter needMapToMap (selected utitle methodsMap))"
proof -
  have sec: "\<And>k1. k1 \<in> set ks \<Longrightarrow>
      sectionCalls utitle m methodsMap ord k1 = generateCalls utitle k1 (the (m k1) @ ''List'') m methodsMap (ord k1)"
    using ks by (auto simp: sectionCalls_def range_order_def)
  have a: "(\<Sum>k1\<leftarrow>ks. length (filter (\<lambda>c. \<not> needMapToMap (fst c)) (sectionCalls utitle m methodsMap ord k1))) =
        (\<Sum>k1\<leftarrow>ks. length (filter (\<lambda>g. \<not> needMapToMap g) (selected utitle methodsMap)))"
    by (rule arg_cong [where f = sum_list], rule map_cong [OF refl]) (simp add: sec generateCalls_single)
  have b: "(\<Sum>k1\<leftarrow>ks. length (filter (\<lambda>c. needMapToMap (fst c)) (sectionCalls utitle m methodsMap ord k1))) =
        (\<Sum>k1\<leftarrow>ks. card (dom m) * length (filter needMapToMap (selected utitle methodsMap)))"
    using ord by (intro arg_cong [where f = sum_list] map_cong [OF refl]) (simp add: sec generateCalls_cross)
  show "length (filter (\<lambda>c. \<not> needMapToMap (fst c)) (expansion utitle m methodsMap ord ks)) =
           card (dom m) * length (filter (\<lambda>g. \<not> needMapToMap g) (selected utitle methodsMap))"
    using range_order_length [OF ks]
    by (simp add: expansion_def length_filter_concat a sum_list_triv)
  show "length (filter (\<lambda>c. needMapToMap (fst c)) (expansion utitle m methodsMap ord ks)) =
           card (dom m) * card (dom m) * length (filter needMapToMap (selected utitle methodsMap))"
    using range_order_length [OF ks]
    by (simp add: expansion_def length_filter_concat b sum_list_triv)
qed
subsection \<open>What the orders of the loops over the type map change\<close>

lemma range_order_mset: "range_order m ks \<Longrightarrow> range_order m ks' \<Longrightarrow> mset ks = mset ks'"
  by (simp add: range_order_def set_eq_iff_mset_eq_distinct [symmetric])

lemma range_order_singleton: "dom m = {k} \<Longrightarrow> range_order m ks \<Longrightarrow> ks = [k]"
proof -
  assume d: "dom m = {k}" and r: "range_order m ks"
  then have "distinct ks" "set ks = {k}" by (simp_all add: range_order_def)
  then show "ks = [k]"
    by (metis distinct_card card_1_singleton_iff length_Suc_conv length_0_conv list.set_intros(1)
          singletonD is_singletonI is_singleton_altdef)
qed

lemma generatorCalls_single:
  "\<not> needMapToMap gen \<Longrightarrow>
   generatorCalls typeName listname m ord gen = [(gen, listname, typeName, [], [])]"
  by (simp add: generatorCalls_def)

lemma generatorCalls_cross:
  "needMapToMap gen \<Longrightarrow> range_order m (ord (name gen)) \<Longrightarrow>
   generatorCalls typeName listname m ord gen =
     map (\<lambda>k. (gen, listname, typeName, k, if k = typeName then [] else the (m k)))
       (ord (name gen))"
  by (simp add: generatorCalls_def mapToMapCalls_all range_order_def)

text \<open>
  Claim C1, as the program has it. The text of a run is determined by the configuration
  together with the orders in which the loops over the type map visit the types. A run
  formats the header followed by the sections of the types, in the order in which the loop
  of \<^verbatim>\<open>main\<close> visits them. A section is the text of \<^verbatim>\<open>generate\<close>: the declaration of
  the list type followed by the units of the selected generators, generator after
  generator in the order of the registry; a generator without \<^verbatim>\<open>needMapToMap\<close> has one
  unit, a generator with it has one unit for every type, in the order in which its loop
  visits the types. Two runs with the same configuration have the same header, visit the
  same types and, in every section and for every generator, render the same units; they
  can differ only in the order of the sections and in the order of a generator's units for
  the several target types. When the type specification resolves to one type, the two
  runs end alike, with the same text.
\<close>

theorem output_determined_up_to_range_order:
  assumes "types \<noteq> []"
    and "getMethodsMap utitle methods = Inr methodsMap"
    and "typeMap = getTypeMap types"
    and "range_order typeMap ks" and "range_order typeMap ks'"
    and "\<forall>k1 g. range_order typeMap (ord k1 g)" and "\<forall>k1 g. range_order typeMap (ord' k1 g)"
  shows "main utitle Source WriteFile packageName types methods outputName testrun ks ord =
           (case formatEach Source (header utitle packageName methodsMap)
                   (map (sectionText utitle typeMap methodsMap ord) ks) of
              Inl e \<Rightarrow> Inl e
            | Inr src \<Rightarrow> deliver WriteFile outputName testrun src)
       \<and> main utitle Source WriteFile packageName types methods outputName testrun ks' ord' =
           (case formatEach Source (header utitle packageName methodsMap)
                   (map (sectionText utitle typeMap methodsMap ord') ks') of
              Inl e \<Rightarrow> Inl e
            | Inr src \<Rightarrow> deliver WriteFile outputName testrun src)
       \<and> mset ks = mset ks'
       \<and> (\<forall>k1 \<in> dom typeMap. \<exists>v1. typeMap k1 = Some v1
            \<and> sectionText utitle typeMap methodsMap ord k1 =
                generate utitle k1 (v1 @ ''List'') typeMap methodsMap (ord k1)
            \<and> sectionText utitle typeMap methodsMap ord' k1 =
                generate utitle k1 (v1 @ ''List'') typeMap methodsMap (ord' k1)
            \<and> generate utitle k1 (v1 @ ''List'') typeMap methodsMap (ord k1) =
                typeDecl k1 (v1 @ ''List'') @
                concat (map (\<lambda>gen. concat (map render
                          (generatorCalls k1 (v1 @ ''List'') typeMap (ord k1) gen)))
                        (selected utitle methodsMap))
            \<and> generate utitle k1 (v1 @ ''List'') typeMap methodsMap (ord' k1) =
                typeDecl k1 (v1 @ ''List'') @
                concat (map (\<lambda>gen. concat (map render
                          (generatorCalls k1 (v1 @ ''List'') typeMap (ord' k1) gen)))
                        (selected utitle methodsMap))
            \<and> (\<forall>gen.
                  (\<not> needMapToMap gen \<longrightarrow>
                     generatorCalls k1 (v1 @ ''List'') typeMap (ord k1) gen =
                       [(gen, v1 @ ''List'', k1, [], [])]
                   \<and> generatorCalls k1 (v1 @ ''List'') typeMap (ord' k1) gen =
                       [(gen, v1 @ ''List'', k1, [], [])])
                \<and> (needMapToMap gen \<longrightarrow>
                     generatorCalls k1 (v1 @ ''List'') typeMap (ord k1) gen =
                       map (\<lambda>k. (gen, v1 @ ''List'', k1, k, if k = k1 then [] else the (typeMap k)))
                         (ord k1 (name gen))
                   \<and> generatorCalls k1 (v1 @ ''List'') typeMap (ord' k1) gen =
                       map (\<lambda>k. (gen, v1 @ ''List'', k1, k, if k = k1 then [] else the (typeMap k)))
                         (ord' k1 (name gen))
                   \<and> mset (ord k1 (name gen)) = mset (ord' k1 (name gen)))))
       \<and> (card (dom typeMap) = 1 \<longrightarrow>
            main utitle Source WriteFile packageName types methods outputName testrun ks ord =
            main utitle Source WriteFile packageName types methods outputName testrun ks' ord')"
proof (intro conjI impI ballI)
  show "main utitle Source WriteFile packageName types methods outputName testrun ks ord =
           (case formatEach Source (header utitle packageName methodsMap)
                   (map (sectionText utitle typeMap methodsMap ord) ks) of
              Inl e \<Rightarrow> Inl e
            | Inr src \<Rightarrow> deliver WriteFile outputName testrun src)"
    using assms(4) unfolding assms(3) by (rule main_formats_sections [OF assms(1,2)])
  show "main utitle Source WriteFile packageName types methods outputName testrun ks' ord' =
           (case formatEach Source (header utitle packageName methodsMap)
                   (map (sectionText utitle typeMap methodsMap ord') ks') of
              Inl e \<Rightarrow> Inl e
            | Inr src \<Rightarrow> deliver WriteFile outputName testrun src)"
    using assms(5) unfolding assms(3) by (rule main_formats_sections [OF assms(1,2)])
  show "mset ks = mset ks'"
    by (rule range_order_mset [OF assms(4,5)])
next
  fix k1 assume "k1 \<in> dom typeMap"
  then obtain v1 where v1: "typeMap k1 = Some v1" by auto
  have a: "sectionText utitle typeMap methodsMap ord k1 =
      generate utitle k1 (v1 @ ''List'') typeMap methodsMap (ord k1)"
    by (rule generate_sectionText [where typeMap = typeMap, OF v1, symmetric])
  have b: "sectionText utitle typeMap methodsMap ord' k1 =
      generate utitle k1 (v1 @ ''List'') typeMap methodsMap (ord' k1)"
    by (rule generate_sectionText [where typeMap = typeMap, OF v1, symmetric])
  have c: "\<forall>gen.
        (\<not> needMapToMap gen \<longrightarrow>
           generatorCalls k1 (v1 @ ''List'') typeMap (ord k1) gen =
             [(gen, v1 @ ''List'', k1, [], [])]
         \<and> generatorCalls k1 (v1 @ ''List'') typeMap (ord' k1) gen =
             [(gen, v1 @ ''List'', k1, [], [])])
      \<and> (needMapToMap gen \<longrightarrow>
           generatorCalls k1 (v1 @ ''List'') typeMap (ord k1) gen =
             map (\<lambda>k. (gen, v1 @ ''List'', k1, k, if k = k1 then [] else the (typeMap k)))
               (ord k1 (name gen))
         \<and> generatorCalls k1 (v1 @ ''List'') typeMap (ord' k1) gen =
             map (\<lambda>k. (gen, v1 @ ''List'', k1, k, if k = k1 then [] else the (typeMap k)))
               (ord' k1 (name gen))
         \<and> mset (ord k1 (name gen)) = mset (ord' k1 (name gen)))"
  proof (intro allI conjI impI)
    fix gen :: Generator
    have o: "range_order typeMap (ord k1 (name gen))" "range_order typeMap (ord' k1 (name gen))"
      using assms(6,7) by simp_all
    show "mset (ord k1 (name gen)) = mset (ord' k1 (name gen))"
      by (rule range_order_mset [OF o])
    assume "needMapToMap gen"
    then show "generatorCalls k1 (v1 @ ''List'') typeMap (ord k1) gen =
             map (\<lambda>k. (gen, v1 @ ''List'', k1, k, if k = k1 then [] else the (typeMap k)))
               (ord k1 (name gen))"
      and "generatorCalls k1 (v1 @ ''List'') typeMap (ord' k1) gen =
             map (\<lambda>k. (gen, v1 @ ''List'', k1, k, if k = k1 then [] else the (typeMap k)))
               (ord' k1 (name gen))"
      using o by (simp_all add: generatorCalls_cross)
  next
    fix gen :: Generator
    assume "\<not> needMapToMap gen"
    then show "generatorCalls k1 (v1 @ ''List'') typeMap (ord k1) gen =
             [(gen, v1 @ ''List'', k1, [], [])]"
      and "generatorCalls k1 (v1 @ ''List'') typeMap (ord' k1) gen =
             [(gen, v1 @ ''List'', k1, [], [])]"
      by (simp_all add: generatorCalls_single)
  qed
  show "\<exists>v1. typeMap k1 = Some v1
            \<and> sectionText utitle typeMap methodsMap ord k1 =
                generate utitle k1 (v1 @ ''List'') typeMap methodsMap (ord k1)
            \<and> sectionText utitle typeMap methodsMap ord' k1 =
                generate utitle k1 (v1 @ ''List'') typeMap methodsMap (ord' k1)
            \<and> generate utitle k1 (v1 @ ''List'') typeMap methodsMap (ord k1) =
                typeDecl k1 (v1 @ ''List'') @
                concat (map (\<lambda>gen. concat (map render
                          (generatorCalls k1 (v1 @ ''List'') typeMap (ord k1) gen)))
                        (selected utitle methodsMap))
            \<and> generate utitle k1 (v1 @ ''List'') typeMap methodsMap (ord' k1) =
                typeDecl k1 (v1 @ ''List'') @
                concat (map (\<lambda>gen. concat (map render
                          (generatorCalls k1 (v1 @ ''List'') typeMap (ord' k1) gen)))
                        (selected utitle methodsMap))
            \<and> (\<forall>gen.
                  (\<not> needMapToMap gen \<longrightarrow>
                     generatorCalls k1 (v1 @ ''List'') typeMap (ord k1) gen =
                       [(gen, v1 @ ''List'', k1, [], [])]
                   \<and> generatorCalls k1 (v1 @ ''List'') typeMap (ord' k1) gen =
                       [(gen, v1 @ ''List'', k1, [], [])])
                \<and> (needMapToMap gen \<longrightarrow>
                     generatorCalls k1 (v1 @ ''List'') typeMap (ord k1) gen =
                       map (\<lambda>k. (gen, v1 @ ''List'', k1, k, if k = k1 then [] else the (typeMap k)))
                         (ord k1 (name gen))
                   \<and> generatorCalls k1 (v1 @ ''List'') typeMap (ord' k1) gen =
                       map (\<lambda>k. (gen, v1 @ ''List'', k1, k, if k = k1 then [] else the (typeMap k)))
                         (ord' k1 (name gen))
                   \<and> mset (ord k1 (name gen)) = mset (ord' k1 (name gen))))"
    using v1 a b c generate_groups [of utitle k1 "v1 @ ''List''" typeMap methodsMap "ord k1"]
      generate_groups [of utitle k1 "v1 @ ''List''" typeMap methodsMap "ord' k1"]
    by blast
next
  assume "card (dom typeMap) = 1"
  then obtain k where k: "dom typeMap = {k}" by (auto simp: card_1_singleton_iff)
  have ks: "ks = [k]" "ks' = [k]"
    by (rule range_order_singleton [OF k assms(4)], rule range_order_singleton [OF k assms(5)])
  have "\<And>k1 g. ord k1 g = [k]" "\<And>k1 g. ord' k1 g = [k]"
    using assms(6,7) by (blast intro: range_order_singleton [OF k])+
  then have "ord = ord'" by (simp add: fun_eq_iff)
  then show "main utitle Source WriteFile packageName types methods outputName testrun ks ord =
            main utitle Source WriteFile packageName types methods outputName testrun ks' ord'"
    by (simp add: ks)
qed

text \<open>
  The theorem for the types \<^verbatim>\<open>int,string\<close> with the methods \<^verbatim>\<open>Map\<close>, visited in the two
  possible orders, with a formatter that returns its input and a writer that does not
  fail: one run writes the section of \<^verbatim>\<open>int\<close> first and the other that of \<^verbatim>\<open>string\<close>.
  The single type \<^verbatim>\<open>int\<close> can be visited in one order only.
\<close>

theorem output_determined_up_to_range_order_witness:
  "main (\<lambda>s. s) Inr (\<lambda>_ _. None) ''main'' ''int,string'' ''Map'' ''fungen_auto.go'' False
      [''int'', ''string''] (\<lambda>_ _. [''int'', ''string'']) =
     Inr (Written ''fungen_auto.go''
       (header (\<lambda>s. s) ''main'' [''Map'' \<mapsto> True] @
        generate (\<lambda>s. s) ''int'' ''intList'' (getTypeMap ''int,string'') [''Map'' \<mapsto> True]
          (\<lambda>_. [''int'', ''string'']) @
        generate (\<lambda>s. s) ''string'' ''stringList'' (getTypeMap ''int,string'') [''Map'' \<mapsto> True]
          (\<lambda>_. [''int'', ''string''])))
   \<and> main (\<lambda>s. s) Inr (\<lambda>_ _. None) ''main'' ''int,string'' ''Map'' ''fungen_auto.go'' False
      [''string'', ''int''] (\<lambda>_ _. [''string'', ''int'']) =
     Inr (Written ''fungen_auto.go''
       (header (\<lambda>s. s) ''main'' [''Map'' \<mapsto> True] @
        generate (\<lambda>s. s) ''string'' ''stringList'' (getTypeMap ''int,string'') [''Map'' \<mapsto> True]
          (\<lambda>_. [''string'', ''int'']) @
        generate (\<lambda>s. s) ''int'' ''intList'' (getTypeMap ''int,string'') [''Map'' \<mapsto> True]
          (\<lambda>_. [''string'', ''int''])))
   \<and> mset [''int'', ''string''] = mset [''string'', ''int'']
   \<and> card (dom (getTypeMap ''int'')) = 1
   \<and> range_order (getTypeMap ''int'') [''int'']"
proof -
  let ?u = "\<lambda>s :: string. s"
  let ?m = "getTypeMap ''int,string''"
  let ?mm = "[''Map'' \<mapsto> True]"
  let ?o1 = "\<lambda>(_ :: string) (_ :: string). [''int'', ''string'']"
  let ?o2 = "\<lambda>(_ :: string) (_ :: string). [''string'', ''int'']"
  have tm: "?m = [''int'' \<mapsto> ''int'', ''string'' \<mapsto> ''string'']"
    by (simp add: getTypeMap_def setType_def)
  have mm: "getMethodsMap ?u ''Map'' = Inr ?mm"
    by (simp add: getMethodsMap_def GeneratorList_Each_def generators_def)
  have ne: "''int,string'' \<noteq> []" by simp
  have r1: "range_order ?m [''int'', ''string'']"
    and r2: "range_order ?m [''string'', ''int'']"
    by (auto simp: tm range_order_def)
  have o1: "\<forall>k1 g. range_order ?m (?o1 k1 g)" and o2: "\<forall>k1 g. range_order ?m (?o2 k1 g)"
    using r1 r2 by simp_all
  note inst = output_determined_up_to_range_order [OF ne mm refl r1 r2 o1 o2,
      where Source = Inr and WriteFile = "\<lambda>_ _. None" and packageName = "''main''"
      and outputName = "''fungen_auto.go''" and testrun = False]
  from inst have run1: "main ?u Inr (\<lambda>_ _. None) ''main'' ''int,string'' ''Map'' ''fungen_auto.go''
        False [''int'', ''string''] ?o1 =
      (case formatEach Inr (header ?u ''main'' ?mm) (map (sectionText ?u ?m ?mm ?o1) [''int'', ''string'']) of
         Inl e \<Rightarrow> Inl e
       | Inr src \<Rightarrow> deliver (\<lambda>_ _. None) ''fungen_auto.go'' False src)"
    by blast
  from inst have run2: "main ?u Inr (\<lambda>_ _. None) ''main'' ''int,string'' ''Map'' ''fungen_auto.go''
        False [''string'', ''int''] ?o2 =
      (case formatEach Inr (header ?u ''main'' ?mm) (map (sectionText ?u ?m ?mm ?o2) [''string'', ''int'']) of
         Inl e \<Rightarrow> Inl e
       | Inr src \<Rightarrow> deliver (\<lambda>_ _. None) ''fungen_auto.go'' False src)"
    by blast
  from inst have perm: "mset [''int'', ''string''] = mset [''string'', ''int'']"
    by blast
  from inst have "\<forall>k1 \<in> dom ?m. \<exists>v1. ?m k1 = Some v1
       \<and> sectionText ?u ?m ?mm ?o1 k1 = generate ?u k1 (v1 @ ''List'') ?m ?mm (?o1 k1)
       \<and> sectionText ?u ?m ?mm ?o2 k1 = generate ?u k1 (v1 @ ''List'') ?m ?mm (?o2 k1)"
    by blast
  then have st:
    "sectionText ?u ?m ?mm ?o1 ''int'' = generate ?u ''int'' ''intList'' ?m ?mm (\<lambda>_. [''int'', ''string''])"
    "sectionText ?u ?m ?mm ?o1 ''string'' = generate ?u ''string'' ''stringList'' ?m ?mm (\<lambda>_. [''int'', ''string''])"
    "sectionText ?u ?m ?mm ?o2 ''int'' = generate ?u ''int'' ''intList'' ?m ?mm (\<lambda>_. [''string'', ''int''])"
    "sectionText ?u ?m ?mm ?o2 ''string'' = generate ?u ''string'' ''stringList'' ?m ?mm (\<lambda>_. [''string'', ''int''])"
    by (simp_all add: tm)
  have one: "getTypeMap ''int'' = [''int'' \<mapsto> ''int'']"
    by (simp add: getTypeMap_def setType_def)
  have "card (dom (getTypeMap ''int'')) = 1" "range_order (getTypeMap ''int'') [''int'']"
    by (simp_all add: one range_order_def)
  with perm show ?thesis
    by (simp add: run1 run2 st deliver_def)
qed

text \<open>
  As the claim is written it fails. For the types \<^verbatim>\<open>int,string\<close> and the methods
  \<^verbatim>\<open>Map\<close>, both orders of the two types are orders in which a loop can visit the type
  map. \<^verbatim>\<open>generate\<close> for the type \<^verbatim>\<open>int\<close> writes \<^verbatim>\<open>Map\<close> before \<^verbatim>\<open>MapString\<close> in one
  order and after it in the other; and a run whose formatter keeps the order of the
  declarations (here it returns its input) writes the section of \<^verbatim>\<open>int\<close> first in one
  order and that of \<^verbatim>\<open>string\<close> first in the other.
\<close>

theorem output_order_counterexample:
  "range_order (getTypeMap ''int,string'') [''int'', ''string'']
   \<and> range_order (getTypeMap ''int,string'') [''string'', ''int'']
   \<and> generate (\<lambda>s. s) ''int'' ''intList'' (getTypeMap ''int,string'') [''Map'' \<mapsto> True]
        (\<lambda>_. [''int'', ''string''])
     \<noteq> generate (\<lambda>s. s) ''int'' ''intList'' (getTypeMap ''int,string'') [''Map'' \<mapsto> True]
        (\<lambda>_. [''string'', ''int''])
   \<and> main (\<lambda>s. s) Inr (\<lambda>_ _. None) ''main'' ''int,string'' ''Any'' ''fungen_auto.go'' False
        [''int'', ''string''] (\<lambda>_ _. [''int'', ''string''])
     \<noteq> main (\<lambda>s. s) Inr (\<lambda>_ _. None) ''main'' ''int,string'' ''Any'' ''fungen_auto.go'' False
        [''string'', ''int''] (\<lambda>_ _. [''int'', ''string''])"
proof -
  let ?m = "getTypeMap ''int,string''"
  let ?gen = "\<lparr>name = ''Map'', method_fn = getMapFunction (\<lambda>s. s), needSync = False, needMapToMap = True\<rparr>"
  have tm: "?m = [''int'' \<mapsto> ''int'', ''string'' \<mapsto> ''string'']"
    by (simp add: getTypeMap_def setType_def)
  have r: "range_order ?m [''int'', ''string'']" "range_order ?m [''string'', ''int'']"
    by (auto simp: tm range_order_def)
  have sel: "selected (\<lambda>s. s) [''Map'' \<mapsto> True] = [?gen]"
    by (simp add: selected_def GeneratorList_Filter_def generators_def ex_bool_eq)
  have c1: "generateCalls (\<lambda>s. s) ''int'' ''intList'' ?m [''Map'' \<mapsto> True] (\<lambda>_. [''int'', ''string'']) =
      [(?gen, ''intList'', ''int'', ''int'', []), (?gen, ''intList'', ''int'', ''string'', ''string'')]"
    by (simp add: generateCalls_def sel generatorCalls_def tm)
  have c2: "generateCalls (\<lambda>s. s) ''int'' ''intList'' ?m [''Map'' \<mapsto> True] (\<lambda>_. [''string'', ''int'']) =
      [(?gen, ''intList'', ''int'', ''string'', ''string''), (?gen, ''intList'', ''int'', ''int'', [])]"
    by (simp add: generateCalls_def sel generatorCalls_def tm)
  have title: "strings_Title (\<lambda>s. s) [] = []" "strings_Title (\<lambda>s. s) ''string'' = ''String''"
    by code_simp+
  have g: "generate (\<lambda>s. s) ''int'' ''intList'' ?m [''Map'' \<mapsto> True] (\<lambda>_. [''int'', ''string''])
     \<noteq> generate (\<lambda>s. s) ''int'' ''intList'' ?m [''Map'' \<mapsto> True] (\<lambda>_. [''string'', ''int''])"
    by (simp add: generate_renders_calls c1 c2 render_def getMapFunction_def title)
  let ?any = "\<lparr>name = ''Any'', method_fn = getAnyFunction, needSync = False, needMapToMap = False\<rparr>"
  have mm: "getMethodsMap (\<lambda>s. s) ''Any'' = Inr [''Any'' \<mapsto> True]"
    by (simp add: getMethodsMap_def GeneratorList_Each_def generators_def)
  have sel': "selected (\<lambda>s. s) [''Any'' \<mapsto> True] = [?any]"
    by (simp add: selected_def GeneratorList_Filter_def generators_def ex_bool_eq)
  have gc: "\<And>t l ord. generateCalls (\<lambda>s. s) t l ?m [''Any'' \<mapsto> True] ord = [(?any, l, t, [], [])]"
    by (simp add: generateCalls_def sel' generatorCalls_def)
  have m: "main (\<lambda>s. s) Inr (\<lambda>_ _. None) ''main'' ''int,string'' ''Any'' ''fungen_auto.go'' False
        [''int'', ''string''] (\<lambda>_ _. [''int'', ''string''])
     \<noteq> main (\<lambda>s. s) Inr (\<lambda>_ _. None) ''main'' ''int,string'' ''Any'' ''fungen_auto.go'' False
        [''string'', ''int''] (\<lambda>_ _. [''int'', ''string''])"
    by (simp add: main_def Let_def mm generateAll_passthrough tm generate_renders_calls gc typeDecl_def
          del: generateAll.simps)
  from r g m show ?thesis by blast
qed
subsection \<open>The list type that a method to another type returns\<close>

text \<open>
  Claim C2 says that a method to another type returns the list type declared for the
  target type, the target's alias followed by \<^verbatim>\<open>List\<close>. The templates build the name from
  the target type instead. For the types \<^verbatim>\<open>int,string:S\<close> the loop of \<^verbatim>\<open>main\<close> declares
  the list type \<^verbatim>\<open>SList\<close> for \<^verbatim>\<open>string\<close>, and the methods \<^verbatim>\<open>MapS\<close> and \<^verbatim>\<open>PMapS\<close> of
  \<^verbatim>\<open>intList\<close> are rendered with the result type \<^verbatim>\<open>stringList\<close>, which the generated file
  does not declare.
\<close>

theorem MapS_returns_stringList:
  "getTypeMap ''int,string:S'' ''string'' = Some ''S''
   \<and> typeDecl ''string'' (''S'' @ ''List'') =
     ''\<newline>'' @
     ''            \<newline>'' @
     ''            // SList is the type for a list that holds members of type string\<newline>'' @
     ''            type SList []string\<newline>'' @
     ''            ''
   \<and> (''Map'', ''intList'', ''int'', ''string'', ''S'')
       \<in> set (map (\<lambda>(gen, args). (name gen, args))
            (generateCalls utitle ''int'' ''intList'' (getTypeMap ''int,string:S'') [''Map'' \<mapsto> True]
               (\<lambda>_. [''int'', ''string''])))
   \<and> getMapFunction utitle ''intList'' ''int'' ''string'' ''S'' =
     ''\<newline>'' @
     ''        // MapS is a method on intList that takes a function of type int -> string and applies it to every member of intList\<newline>'' @
     ''        func (l intList) MapS(f func(int) string) stringList {\<newline>'' @
     ''            l2 := make(stringList, len(l))\<newline>'' @
     ''            for i, t := range l {\<newline>'' @
     ''                l2[i] = f(t)\<newline>'' @
     ''            }\<newline>'' @
     ''            return l2\<newline>'' @
     ''        }\<newline>'' @
     ''        ''
   \<and> getPMapFunction utitle ''intList'' ''int'' ''string'' ''S'' =
     ''\<newline>'' @
     ''        // PMapS is similar to MapS except that it executes the function on each member in parallel.\<newline>'' @
     ''        func (l intList) PMapS(f func(int) string) stringList {\<newline>'' @
     ''            wg := sync.WaitGroup{}\<newline>'' @
     ''            l2 := make(stringList, len(l))\<newline>'' @
     ''            for i, t := range l {\<newline>'' @
     ''                wg.Add(1)\<newline>'' @
     ''                go func(i int, t int){\<newline>'' @
     ''                    l2[i] = f(t)\<newline>'' @
     ''                    wg.Done()\<newline>'' @
     ''                }(i, t)\<newline>'' @
     ''            }\<newline>'' @
     ''            wg.Wait()\<newline>'' @
     ''            return l2\<newline>'' @
     ''        }\<newline>'' @
     ''        ''"
proof -
  have tm: "getTypeMap ''int,string:S'' = [''int'' \<mapsto> ''int'', ''string'' \<mapsto> ''S'']"
    by (simp add: getTypeMap_def setType_def)
  have sel: "selected utitle [''Map'' \<mapsto> True] =
      [\<lparr>name = ''Map'', method_fn = getMapFunction utitle, needSync = False, needMapToMap = True\<rparr>]"
    by (simp add: selected_def GeneratorList_Filter_def generators_def ex_bool_eq)
  have title: "strings_Title utitle ''S'' = ''S''"
    by (simp add: strings_Title_def isASCII_def isSeparator_def ToTitle_def)
  have "getTypeMap ''int,string:S'' ''string'' = Some ''S''"
    by (simp add: tm)
  moreover have "typeDecl ''string'' (''S'' @ ''List'') =
     ''\<newline>'' @
     ''            \<newline>'' @
     ''            // SList is the type for a list that holds members of type string\<newline>'' @
     ''            type SList []string\<newline>'' @
     ''            ''"
    by (simp add: typeDecl_def)
  moreover have "(''Map'', ''intList'', ''int'', ''string'', ''S'')
       \<in> set (map (\<lambda>(gen, args). (name gen, args))
            (generateCalls utitle ''int'' ''intList'' (getTypeMap ''int,string:S'') [''Map'' \<mapsto> True]
               (\<lambda>_. [''int'', ''string''])))"
    by (simp add: generateCalls_def sel generatorCalls_def tm)
  moreover have "getMapFunction utitle ''intList'' ''int'' ''string'' ''S'' =
     ''\<newline>'' @
     ''        // MapS is a method on intList that takes a function of type int -> string and applies it to every member of intList\<newline>'' @
     ''        func (l intList) MapS(f func(int) string) stringList {\<newline>'' @
     ''            l2 := make(stringList, len(l))\<newline>'' @
     ''            for i, t := range l {\<newline>'' @
     ''                l2[i] = f(t)\<newline>'' @
     ''            }\<newline>'' @
     ''            return l2\<newline>'' @
     ''        }\<newline>'' @
     ''        ''"
    by (simp add: getMapFunction_def title)
  moreover have "getPMapFunction utitle ''intList'' ''int'' ''string'' ''S'' =
     ''\<newline>'' @
     ''        // PMapS is similar to MapS except that it executes the function on each member in parallel.\<newline>'' @
     ''        func (l intList) PMapS(f func(int) string) stringList {\<newline>'' @
     ''            wg := sync.WaitGroup{}\<newline>'' @
     ''            l2 := make(stringList, len(l))\<newline>'' @
     ''            for i, t := range l {\<newline>'' @
     ''                wg.Add(1)\<newline>'' @
     ''                go func(i int, t int){\<newline>'' @
     ''                    l2[i] = f(t)\<newline>'' @
     ''                    wg.Done()\<newline>'' @
     ''                }(i, t)\<newline>'' @
     ''            }\<newline>'' @
     ''            wg.Wait()\<newline>'' @
     ''            return l2\<newline>'' @
     ''        }\<newline>'' @
     ''        ''"
    by (simp add: getPMapFunction_def title)
  ultimately show ?thesis by blast
qed
subsection \<open>The number of rendered units\<close>

text \<open>The keys of the type map are the first fields of the entries.\<close>

lemma strings_Split_not_Nil: "strings_Split s sep \<noteq> []"
  by (induction s) (auto split: list.splits)

lemma dom_setType: "dom (setType m t) = insert (hd (strings_Split t (CHR '':''))) (dom m)"
  using strings_Split_not_Nil [of t "CHR '':''"]
  by (auto simp: setType_def split: list.splits)

lemma dom_foldl_setType:
  "dom (foldl setType m ts) = dom m \<union> (\<lambda>t. hd (strings_Split t (CHR '':''))) ` set ts"
  by (induction ts arbitrary: m) (auto simp: dom_setType)

lemma dom_getTypeMap:
  "types \<noteq> [] \<Longrightarrow>
   dom (getTypeMap types) =
     (\<lambda>t. hd (strings_Split t (CHR '':''))) ` set (strings_Split types (CHR '',''))"
  by (simp add: getTypeMap_def dom_foldl_setType)

text \<open>
  Claim C3. For a type specification that is not empty and a methods specification that
  \<^verbatim>\<open>getMethodsMap\<close> accepts, let \<^verbatim>\<open>K\<close> be the number of distinct types of the
  specification (the keys of the type map; there is at least one). The loop of \<^verbatim>\<open>main\<close>
  visits \<^verbatim>\<open>K\<close> types; for each it appends the text of \<^verbatim>\<open>generate\<close>, which is the
  declaration of the list type followed by the rendered calls of the type's section, and
  formats the text; the run ends with the formatter's error if the formatter fails, and
  delivers the last text otherwise. The sections of the \<^verbatim>\<open>K\<close> types hold, in all,
  exactly \<^verbatim>\<open>K * S\<close> calls of the templates of the selected generators without
  \<^verbatim>\<open>needMapToMap\<close> and exactly \<^verbatim>\<open>K * K * C\<close> calls of those of the selected generators
  with \<^verbatim>\<open>needMapToMap\<close>, where \<^verbatim>\<open>S\<close> and \<^verbatim>\<open>C\<close> count the selected generators of the two
  kinds; this holds in whatever order the loops visit the type map.
\<close>

theorem expansion_unit_counts:
  assumes "types \<noteq> []"
    and "getMethodsMap utitle methods = Inr methodsMap"
    and "typeMap = getTypeMap types"
    and "range_order typeMap ks"
    and "\<forall>k1 g. range_order typeMap (ord k1 g)"
  shows "main utitle Source WriteFile packageName types methods outputName testrun ks ord =
           (case formatEach Source (header utitle packageName methodsMap)
                   (map (sectionText utitle typeMap methodsMap ord) ks) of
              Inl e \<Rightarrow> Inl e
            | Inr src \<Rightarrow> deliver WriteFile outputName testrun src)
       \<and> (\<forall>k1 \<in> set ks. \<exists>v1. typeMap k1 = Some v1
            \<and> sectionText utitle typeMap methodsMap ord k1 =
                generate utitle k1 (v1 @ ''List'') typeMap methodsMap (ord k1)
            \<and> generate utitle k1 (v1 @ ''List'') typeMap methodsMap (ord k1) =
                typeDecl k1 (v1 @ ''List'') @
                concat (map render (sectionCalls utitle typeMap methodsMap ord k1)))
       \<and> expansion utitle typeMap methodsMap ord ks =
            concat (map (sectionCalls utitle typeMap methodsMap ord) ks)
       \<and> length ks = card (dom typeMap)
       \<and> dom typeMap = (\<lambda>t. hd (strings_Split t (CHR '':''))) ` set (strings_Split types (CHR '',''))
       \<and> 0 < card (dom typeMap)
       \<and> length (filter (\<lambda>c. \<not> needMapToMap (fst c)) (expansion utitle typeMap methodsMap ord ks)) =
           card (dom typeMap) * length (filter (\<lambda>g. \<not> needMapToMap g) (selected utitle methodsMap))
       \<and> length (filter (\<lambda>c. needMapToMap (fst c)) (expansion utitle typeMap methodsMap ord ks)) =
           card (dom typeMap) * card (dom typeMap) * length (filter needMapToMap (selected utitle methodsMap))"
proof -
  have d: "dom typeMap = (\<lambda>t. hd (strings_Split t (CHR '':''))) ` set (strings_Split types (CHR '',''))"
    unfolding assms(3) by (rule dom_getTypeMap [OF assms(1)])
  have "finite (dom typeMap)" "dom typeMap \<noteq> {}"
    using strings_Split_not_Nil [of types "CHR '',''"] by (simp_all add: d)
  then have pos: "0 < card (dom typeMap)" by (simp add: card_gt_0_iff)
  have run: "main utitle Source WriteFile packageName types methods outputName testrun ks ord =
           (case formatEach Source (header utitle packageName methodsMap)
                   (map (sectionText utitle typeMap methodsMap ord) ks) of
              Inl e \<Rightarrow> Inl e
            | Inr src \<Rightarrow> deliver WriteFile outputName testrun src)"
    using assms(4) unfolding assms(3) by (rule main_formats_sections [OF assms(1,2)])
  have sec: "\<forall>k1 \<in> set ks. \<exists>v1. typeMap k1 = Some v1
            \<and> sectionText utitle typeMap methodsMap ord k1 =
                generate utitle k1 (v1 @ ''List'') typeMap methodsMap (ord k1)
            \<and> generate utitle k1 (v1 @ ''List'') typeMap methodsMap (ord k1) =
                typeDecl k1 (v1 @ ''List'') @
                concat (map render (sectionCalls utitle typeMap methodsMap ord k1))"
  proof
    fix k1 assume "k1 \<in> set ks"
    then obtain v1 where v1: "typeMap k1 = Some v1"
      using assms(4) by (auto simp: range_order_def)
    have "sectionText utitle typeMap methodsMap ord k1 =
        generate utitle k1 (v1 @ ''List'') typeMap methodsMap (ord k1)"
      by (rule generate_sectionText [where typeMap = typeMap, OF v1, symmetric])
    moreover have "generate utitle k1 (v1 @ ''List'') typeMap methodsMap (ord k1) =
        typeDecl k1 (v1 @ ''List'') @
        concat (map render (sectionCalls utitle typeMap methodsMap ord k1))"
      by (simp add: sectionCalls_def v1 generate_renders_calls)
    ultimately show "\<exists>v1. typeMap k1 = Some v1
            \<and> sectionText utitle typeMap methodsMap ord k1 =
                generate utitle k1 (v1 @ ''List'') typeMap methodsMap (ord k1)
            \<and> generate utitle k1 (v1 @ ''List'') typeMap methodsMap (ord k1) =
                typeDecl k1 (v1 @ ''List'') @
                concat (map render (sectionCalls utitle typeMap methodsMap ord k1))"
      using v1 by blast
  qed
  have ex: "expansion utitle typeMap methodsMap ord ks =
            concat (map (sectionCalls utitle typeMap methodsMap ord) ks)"
    by (simp add: expansion_def)
  note counts = expansion_counts [OF assms(4) assms(5), of utitle methodsMap]
  from run sec ex range_order_length [OF assms(4)] d pos counts
  show ?thesis by blast
qed

text \<open>
  The theorem for the types \<^verbatim>\<open>int,string:S\<close> and the methods \<^verbatim>\<open>Map,Filter,Take\<close>, with
  a formatter that returns its input and a writer that does not fail: the run writes the
  header followed by the two sections; there are two types, two selected generators of
  the first kind and one of the second, and four calls of each kind.
\<close>

theorem expansion_unit_counts_witness:
  "\<exists>methodsMap. getMethodsMap (\<lambda>s. s) ''Map,Filter,Take'' = Inr methodsMap
     \<and> main (\<lambda>s. s) Inr (\<lambda>_ _. None) ''main'' ''int,string:S'' ''Map,Filter,Take''
          ''fungen_auto.go'' False [''int'', ''string''] (\<lambda>_ _. [''string'', ''int'']) =
        Inr (Written ''fungen_auto.go''
          (header (\<lambda>s. s) ''main'' methodsMap @
           generate (\<lambda>s. s) ''int'' ''intList'' (getTypeMap ''int,string:S'') methodsMap
             (\<lambda>_. [''string'', ''int'']) @
           generate (\<lambda>s. s) ''string'' ''SList'' (getTypeMap ''int,string:S'') methodsMap
             (\<lambda>_. [''string'', ''int''])))
     \<and> card (dom (getTypeMap ''int,string:S'')) = 2
     \<and> length (filter (\<lambda>g. \<not> needMapToMap g) (selected (\<lambda>s. s) methodsMap)) = 2
     \<and> length (filter needMapToMap (selected (\<lambda>s. s) methodsMap)) = 1
     \<and> length (filter (\<lambda>c. \<not> needMapToMap (fst c))
          (expansion (\<lambda>s. s) (getTypeMap ''int,string:S'') methodsMap
             (\<lambda>_ _. [''string'', ''int'']) [''int'', ''string''])) = 4
     \<and> length (filter (\<lambda>c. needMapToMap (fst c))
          (expansion (\<lambda>s. s) (getTypeMap ''int,string:S'') methodsMap
             (\<lambda>_ _. [''string'', ''int'']) [''int'', ''string''])) = 4"
proof -
  let ?u = "\<lambda>s :: string. s"
  let ?mm = "[''Map'' \<mapsto> True, ''Filter'' \<mapsto> True, ''Take'' \<mapsto> True]"
  let ?m = "getTypeMap ''int,string:S''"
  let ?ord = "\<lambda>(_ :: string) (_ :: string). [''string'', ''int'']"
  have tm: "?m = [''int'' \<mapsto> ''int'', ''string'' \<mapsto> ''S'']"
    by (simp add: getTypeMap_def setType_def)
  have mm: "getMethodsMap ?u ''Map,Filter,Take'' = Inr ?mm"
    by (simp add: getMethodsMap_def GeneratorList_Each_def generators_def)
  have sel: "selected ?u ?mm = [generators ?u ! 0, generators ?u ! 2, generators ?u ! 6]"
    by (simp add: selected_def GeneratorList_Filter_def generators_def ex_bool_eq)
  have s: "length (filter (\<lambda>g. \<not> needMapToMap g) (selected ?u ?mm)) = 2"
    and c: "length (filter needMapToMap (selected ?u ?mm)) = 1"
    by (simp_all add: sel) (simp_all add: generators_def)
  have k: "card (dom ?m) = 2"
    by (simp add: tm)
  have r1: "range_order ?m [''int'', ''string'']"
    by (auto simp: tm range_order_def)
  have r2: "\<forall>k1 g. range_order ?m (?ord k1 g)"
    by (auto simp: tm range_order_def)
  have ne: "''int,string:S'' \<noteq> []" by simp
  note inst = expansion_unit_counts [OF ne mm refl r1 r2, where Source = Inr
      and WriteFile = "\<lambda>_ _. None" and packageName = "''main''"
      and outputName = "''fungen_auto.go''" and testrun = False]
  from inst have run: "main ?u Inr (\<lambda>_ _. None) ''main'' ''int,string:S'' ''Map,Filter,Take''
          ''fungen_auto.go'' False [''int'', ''string''] ?ord =
        (case formatEach Inr (header ?u ''main'' ?mm)
                (map (sectionText ?u ?m ?mm ?ord) [''int'', ''string'']) of
           Inl e \<Rightarrow> Inl e
         | Inr src \<Rightarrow> deliver (\<lambda>_ _. None) ''fungen_auto.go'' False src)"
    by blast
  from inst have "\<forall>k1 \<in> set [''int'', ''string'']. \<exists>v1. ?m k1 = Some v1
       \<and> sectionText ?u ?m ?mm ?ord k1 = generate ?u k1 (v1 @ ''List'') ?m ?mm (?ord k1)"
    by blast
  then have st: "sectionText ?u ?m ?mm ?ord ''int'' = generate ?u ''int'' ''intList'' ?m ?mm (\<lambda>_. [''string'', ''int''])"
    "sectionText ?u ?m ?mm ?ord ''string'' = generate ?u ''string'' ''SList'' ?m ?mm (\<lambda>_. [''string'', ''int''])"
    by (simp_all add: tm)
  have out: "main ?u Inr (\<lambda>_ _. None) ''main'' ''int,string:S'' ''Map,Filter,Take''
          ''fungen_auto.go'' False [''int'', ''string''] ?ord =
        Inr (Written ''fungen_auto.go''
          (header ?u ''main'' ?mm @
           generate ?u ''int'' ''intList'' ?m ?mm (\<lambda>_. [''string'', ''int'']) @
           generate ?u ''string'' ''SList'' ?m ?mm (\<lambda>_. [''string'', ''int''])))"
    by (simp add: run st deliver_def)
  from inst have c1: "length (filter (\<lambda>c. \<not> needMapToMap (fst c))
          (expansion ?u ?m ?mm ?ord [''int'', ''string''])) =
        card (dom ?m) * length (filter (\<lambda>g. \<not> needMapToMap g) (selected ?u ?mm))"
    by blast
  from inst have c2: "length (filter (\<lambda>c. needMapToMap (fst c))
          (expansion ?u ?m ?mm ?ord [''int'', ''string''])) =
        card (dom ?m) * card (dom ?m) * length (filter needMapToMap (selected ?u ?mm))"
    by blast
  show ?thesis
    by (rule exI [of _ ?mm]) (simp add: mm out k s c c1 c2)
qed
subsection \<open>The names of the methods from one type to another\<close>

lemma render_in_generate:
  "c \<in> set (generateCalls utitle typeName listname m methodsMap ord) \<Longrightarrow>
   sublist (render c) (generate utitle typeName listname m methodsMap ord)"
proof -
  assume "c \<in> set (generateCalls utitle typeName listname m methodsMap ord)"
  then obtain cs1 cs2 where "generateCalls utitle typeName listname m methodsMap ord = cs1 @ c # cs2"
    by (auto simp: in_set_conv_decomp)
  then have "generate utitle typeName listname m methodsMap ord =
      (typeDecl typeName listname @ concat (map render cs1)) @ render c @ concat (map render cs2)"
    by (simp add: generate_renders_calls)
  then show ?thesis unfolding sublist_def by blast
qed

lemma cross_generators:
  "gen \<in> set (generators utitle) \<Longrightarrow> needMapToMap gen \<Longrightarrow>
   (name gen = ''Map'' \<and> method_fn gen = getMapFunction utitle) \<or>
   (name gen = ''PMap'' \<and> method_fn gen = getPMapFunction utitle)"
  by (auto simp: generators_def)

lemma getMapFunction_signature:
  "sublist (''func (l '' @ listName @ '') Map'' @ strings_Title utitle targetTypeName @
            ''(f func('' @ typeName @ '') '' @ targetType @ '') '')
     (getMapFunction utitle listName typeName targetType targetTypeName)"
  unfolding sublist_def getMapFunction_def Let_def
  apply (rule exI [of _ "''\<newline>'' @
      ''        // Map'' @ strings_Title utitle targetTypeName @ '' is a method on '' @ listName @ '' that takes a function of type '' @ typeName @ '' -> '' @ targetType @ '' and applies it to every member of '' @ listName @ ''\<newline>'' @
      ''        ''"])
  apply (rule exI [of _ "(if targetTypeName = [] then listName else targetType @ ''List'') @ '' {\<newline>'' @
      ''            l2 := make('' @ (if targetTypeName = [] then listName else targetType @ ''List'') @ '', len(l))\<newline>'' @
      ''            for i, t := range l {\<newline>'' @
      ''                l2[i] = f(t)\<newline>'' @
      ''            }\<newline>'' @
      ''            return l2\<newline>'' @
      ''        }\<newline>'' @
      ''        ''"])
  by simp

lemma getPMapFunction_signature:
  "sublist (''func (l '' @ listName @ '') PMap'' @ strings_Title utitle targetTypeName @
            ''(f func('' @ typeName @ '') '' @ targetType @ '') '')
     (getPMapFunction utitle listName typeName targetType targetTypeName)"
  unfolding sublist_def getPMapFunction_def Let_def
  apply (rule exI [of _ "''\<newline>'' @
      ''        // PMap'' @ strings_Title utitle targetTypeName @ '' is similar to Map'' @ strings_Title utitle targetTypeName @ '' except that it executes the function on each member in parallel.\<newline>'' @
      ''        ''"])
  apply (rule exI [of _ "(if targetTypeName = [] then listName else targetType @ ''List'') @ '' {\<newline>'' @
      ''            wg := sync.WaitGroup{}\<newline>'' @
      ''            l2 := make('' @ (if targetTypeName = [] then listName else targetType @ ''List'') @ '', len(l))\<newline>'' @
      ''            for i, t := range l {\<newline>'' @
      ''                wg.Add(1)\<newline>'' @
      ''                go func(i int, t '' @ typeName @ ''){\<newline>'' @
      ''                    l2[i] = f(t)\<newline>'' @
      ''                    wg.Done()\<newline>'' @
      ''                }(i, t)\<newline>'' @
      ''            }\<newline>'' @
      ''            wg.Wait()\<newline>'' @
      ''            return l2\<newline>'' @
      ''        }\<newline>'' @
      ''        ''"])
  by simp

lemma cross_signature:
  assumes "gen \<in> set (generators utitle)" "needMapToMap gen"
  shows "sublist (''func (l '' @ listName @ '') '' @ (name gen @ strings_Title utitle targetTypeName) @
                  ''(f func('' @ typeName @ '') '' @ targetType @ '') '')
           (method_fn gen listName typeName targetType targetTypeName)"
  using cross_generators [OF assms]
proof
  assume "name gen = ''Map'' \<and> method_fn gen = getMapFunction utitle"
  then show ?thesis
    using getMapFunction_signature [where listName = listName and targetTypeName = targetTypeName
        and typeName = typeName and targetType = targetType and utitle = utitle] by simp
next
  assume "name gen = ''PMap'' \<and> method_fn gen = getPMapFunction utitle"
  then show ?thesis
    using getPMapFunction_signature [where listName = listName and targetTypeName = targetTypeName
        and typeName = typeName and targetType = targetType and utitle = utitle] by simp
qed

lemma strings_Title_Nil: "strings_Title utitle [] = []"
  by (simp add: strings_Title_def isASCII_def)

text \<open>What \<^verbatim>\<open>Title_from\<close> does to each byte.\<close>

lemma Title_from_nth:
  "length (Title_from prev s) = length s \<and>
   (\<forall>i<length s. Title_from prev s ! i =
      (if isSeparator (if i = 0 then prev else s ! (i - 1)) then ToTitle (s ! i) else s ! i))"
proof (induction s arbitrary: prev)
  case Nil
  show ?case by simp
next
  case (Cons r rs)
  show ?case
  proof (intro conjI allI impI)
    show "length (Title_from prev (r # rs)) = length (r # rs)"
      using Cons.IH [of r] by simp
    fix i assume "i < length (r # rs)"
    then show "Title_from prev (r # rs) ! i =
      (if isSeparator (if i = 0 then prev else (r # rs) ! (i - 1)) then ToTitle ((r # rs) ! i)
       else (r # rs) ! i)"
      using Cons.IH [of r] by (cases i) (auto simp: nth_Cons split: nat.splits)
  qed
qed


lemma cross_call_member:
  assumes "m target = Some targetAlias" "gen \<in> set (selected utitle methodsMap)" "needMapToMap gen"
    "range_order m (ord (name gen))"
  shows "(gen, listname, typeName, target, if target = typeName then [] else targetAlias)
           \<in> set (generateCalls utitle typeName listname m methodsMap ord)"
proof -
  have "set (ord (name gen)) \<subseteq> dom m" "target \<in> set (ord (name gen))"
    using assms by (auto simp: range_order_def)
  then have "(gen, listname, typeName, target, if target = typeName then [] else targetAlias)
      \<in> set (mapToMapCalls gen typeName listname m (ord (name gen)))"
    using assms(1) by (auto simp: mapToMapCalls_all)
  then show ?thesis
    using assms(2,3) by (auto simp: generateCalls_def selected_def generatorCalls_def)
qed

lemma cross_call_unique:
  assumes "c \<in> set (generateCalls utitle typeName listname m methodsMap ord)"
    "fst c = gen" "needMapToMap gen" "fst (snd (snd (snd c))) = target" "m target = Some targetAlias"
  shows "c = (gen, listname, typeName, target, if target = typeName then [] else targetAlias)"
proof -
  from assms(1) obtain g where g: "c \<in> set (generatorCalls typeName listname m ord g)"
    by (auto simp: generateCalls_def)
  then have "g = gen" using assms(2) fst_generatorCalls by blast
  then have "c \<in> set (mapToMapCalls gen typeName listname m (ord (name gen)))"
    using g assms(3) by (simp add: generatorCalls_def)
  moreover have "\<And>ks. c \<in> set (mapToMapCalls gen typeName listname m ks) \<Longrightarrow>
      c = (gen, listname, typeName, target, if target = typeName then [] else targetAlias)"
  proof -
    fix ks show "c \<in> set (mapToMapCalls gen typeName listname m ks) \<Longrightarrow>
      c = (gen, listname, typeName, target, if target = typeName then [] else targetAlias)"
      using assms(4,5) by (induction ks) (auto split: option.splits)
  qed
  ultimately show ?thesis by blast
qed

text \<open>
  Claim C4. For a source and a target type of the type map and a selected generator with
  \<^verbatim>\<open>needMapToMap\<close>, \<^verbatim>\<open>generate\<close> for the source type makes exactly one call for this
  generator and target, and the text it renders, which is part of the text of
  \<^verbatim>\<open>generate\<close>, declares on the source's list type a method from the source type to the
  target type whose name is the generator's name when the target type is the source type,
  whatever the aliases are, and otherwise the generator's name followed by
  \<^verbatim>\<open>strings.Title\<close> of the target's alias. \<^verbatim>\<open>strings.Title\<close> of the empty string is
  empty; of an alias of bytes below 0x80 it is the alias with every letter that starts the
  alias or follows a separator in upper case; of any other alias it is what the library
  returns.
\<close>

theorem cross_type_method_name:
  assumes "typeMap source = Some sourceAlias"
    and "typeMap target = Some targetAlias"
    and "gen \<in> set (selected utitle methodsMap)"
    and "needMapToMap gen"
    and "range_order typeMap (ord (name gen))"
    and "listname = sourceAlias @ ''List''"
    and "methodName = (if target = source then name gen else name gen @ strings_Title utitle targetAlias)"
    and "c = (gen, listname, source, target, if target = source then [] else targetAlias)"
  shows "c \<in> set (generateCalls utitle source listname typeMap methodsMap ord)
       \<and> (\<forall>c' \<in> set (generateCalls utitle source listname typeMap methodsMap ord).
             fst c' = gen \<and> fst (snd (snd (snd c'))) = target \<longrightarrow> c' = c)
       \<and> sublist (''func (l '' @ listname @ '') '' @ methodName @
                   ''(f func('' @ source @ '') '' @ target @ '') '') (render c)
       \<and> sublist (render c) (generate utitle source listname typeMap methodsMap ord)
       \<and> strings_Title utitle [] = []
       \<and> (isASCII targetAlias \<longrightarrow>
            length (strings_Title utitle targetAlias) = length targetAlias
          \<and> (\<forall>i<length targetAlias. strings_Title utitle targetAlias ! i =
                (if isSeparator (if i = 0 then CHR '' '' else targetAlias ! (i - 1))
                 then ToTitle (targetAlias ! i) else targetAlias ! i)))
       \<and> (\<not> isASCII targetAlias \<longrightarrow> strings_Title utitle targetAlias = utitle targetAlias)"
proof (intro conjI ballI impI)
  show mem: "c \<in> set (generateCalls utitle source listname typeMap methodsMap ord)"
    unfolding assms(8)
    using assms(2-5) by (rule cross_call_member [where m = typeMap and ord = ord])
  show "sublist (render c) (generate utitle source listname typeMap methodsMap ord)"
    by (rule render_in_generate [OF mem])
  have gen: "gen \<in> set (generators utitle)"
    using assms(3) by (simp add: selected_def GeneratorList_Filter_def)
  show "sublist (''func (l '' @ listname @ '') '' @ methodName @
                   ''(f func('' @ source @ '') '' @ target @ '') '') (render c)"
  proof (cases "target = source")
    case True
    then have "render c = method_fn gen listname source target []"
      and "methodName = name gen @ strings_Title utitle []"
      by (simp_all add: assms(7,8) render_def strings_Title_Nil)
    then show ?thesis
      using cross_signature [OF gen assms(4), where listName = listname and targetTypeName = "[]"
          and typeName = source and targetType = target] by simp
  next
    case False
    then have "render c = method_fn gen listname source target targetAlias"
      and "methodName = name gen @ strings_Title utitle targetAlias"
      by (simp_all add: assms(7,8) render_def)
    then show ?thesis
      using cross_signature [OF gen assms(4), where listName = listname
          and targetTypeName = targetAlias and typeName = source and targetType = target] by simp
  qed
  show "strings_Title utitle [] = []" by (rule strings_Title_Nil)
next
  fix c' assume "c' \<in> set (generateCalls utitle source listname typeMap methodsMap ord)"
    and "fst c' = gen \<and> fst (snd (snd (snd c'))) = target"
  then show "c' = c"
    unfolding assms(8)
    using cross_call_unique [where m = typeMap and c = c' and gen = gen and target = target]
      assms(2,4) by blast
next
  assume a: "isASCII targetAlias"
  then show "length (strings_Title utitle targetAlias) = length targetAlias"
    using Title_from_nth [of "CHR '' ''" targetAlias] by (simp add: strings_Title_def)
  show "\<forall>i<length targetAlias. strings_Title utitle targetAlias ! i =
                (if isSeparator (if i = 0 then CHR '' '' else targetAlias ! (i - 1))
                 then ToTitle (targetAlias ! i) else targetAlias ! i)"
    using a Title_from_nth [of "CHR '' ''" targetAlias] by (simp add: strings_Title_def)
next
  assume "\<not> isASCII targetAlias"
  then show "strings_Title utitle targetAlias = utitle targetAlias"
    by (simp add: strings_Title_def)
qed

text \<open>
  The theorem for the types \<^verbatim>\<open>int,string:str\<close> and the generator \<^verbatim>\<open>Map\<close>: from
  \<^verbatim>\<open>int\<close> to \<^verbatim>\<open>string\<close>, whose alias is \<^verbatim>\<open>str\<close>, the method is \<^verbatim>\<open>MapStr\<close>, and from
  \<^verbatim>\<open>string\<close> to itself it is \<^verbatim>\<open>Map\<close>.
\<close>

theorem cross_type_method_name_witness:
  "sublist ''func (l intList) MapStr(f func(int) string) ''
     (generate (\<lambda>s. s) ''int'' ''intList'' (getTypeMap ''int,string:str'') [''Map'' \<mapsto> True]
        (\<lambda>_. [''int'', ''string'']))
   \<and> sublist ''func (l strList) Map(f func(string) string) ''
     (generate (\<lambda>s. s) ''string'' ''strList'' (getTypeMap ''int,string:str'') [''Map'' \<mapsto> True]
        (\<lambda>_. [''int'', ''string'']))
   \<and> strings_Title (\<lambda>s. s) ''str'' = ''Str''"
proof -
  let ?u = "\<lambda>s :: string. s"
  let ?gen = "\<lparr>name = ''Map'', method_fn = getMapFunction ?u, needSync = False, needMapToMap = True\<rparr>"
  let ?m = "getTypeMap ''int,string:str''"
  let ?mm = "[''Map'' \<mapsto> True]"
  let ?ord = "\<lambda>_ :: string. [''int'', ''string'']"
  have tm: "?m = [''int'' \<mapsto> ''int'', ''string'' \<mapsto> ''str'']"
    by (simp add: getTypeMap_def setType_def)
  have i: "?m ''int'' = Some ''int''" and s: "?m ''string'' = Some ''str''"
    by (simp_all add: tm)
  have sel: "?gen \<in> set (selected ?u ?mm)"
    by (simp add: selected_def GeneratorList_Filter_def generators_def ex_bool_eq)
  have cross: "needMapToMap ?gen" by simp
  have ro: "range_order ?m (?ord (name ?gen))"
    by (auto simp: tm range_order_def)
  note a = cross_type_method_name [OF i s sel cross ro refl refl refl]
  note b = cross_type_method_name [OF s s sel cross ro refl refl refl]
  have "ToTitle (CHR ''s'') = CHR ''S''" by code_simp
  then have title: "strings_Title ?u ''str'' = ''Str''"
    by (simp add: strings_Title_def isASCII_def isSeparator_def)
  have "sublist (''func (l '' @ (''int'' @ ''List'') @ '') '' @
          (if ''string'' = ''int'' then name ?gen else name ?gen @ strings_Title ?u ''str'') @
          ''(f func('' @ ''int'' @ '') '' @ ''string'' @ '') '')
        (generate ?u ''int'' (''int'' @ ''List'') ?m ?mm ?ord)"
    using a by (blast intro: sublist_order.order.trans)
  moreover have "sublist (''func (l '' @ (''str'' @ ''List'') @ '') '' @
          (if ''string'' = ''string'' then name ?gen else name ?gen @ strings_Title ?u ''str'') @
          ''(f func('' @ ''string'' @ '') '' @ ''string'' @ '') '')
        (generate ?u ''string'' (''str'' @ ''List'') ?m ?mm ?ord)"
    using b by (blast intro: sublist_order.order.trans)
  ultimately show ?thesis by (simp add: title)
qed
subsection \<open>Selecting the methods\<close>

lemma Each_names:
  "fold (\<lambda>gen result. result(name gen \<mapsto> True)) gs m0 =
     (\<lambda>n. if n \<in> name ` set gs then Some True else m0 n)"
  by (induction gs arbitrary: m0) (auto simp: fun_eq_iff)

lemma validMethods_eq:
  "GeneratorList_Each (generators utitle) (\<lambda>gen valid. valid(name gen \<mapsto> True)) Map.empty =
     (\<lambda>n. if n \<in> name ` set (generators utitle) then Some True else None)"
  by (simp add: GeneratorList_Each_def Each_names)

lemma selectMethods_first_invalid:
  "(\<forall>x\<in>set pre. validMethods x \<noteq> None) \<Longrightarrow> validMethods t = None \<Longrightarrow>
   selectMethods validMethods result (pre @ t # post) =
     Inl (Fatal (''Error: -method parameter '' @ [CHR 0x27] @ t @ [CHR 0x27] @ '' is not valid''))"
  by (induction pre arbitrary: result) auto



text \<open>
  Claim C6. For the empty methods specification the selection holds the name of every
  generator of the registry. For a methods specification that is not empty and has a
  field that is no name of the registry, \<^verbatim>\<open>getMethodsMap\<close> ends the run with
  \<^verbatim>\<open>log.Fatalf\<close>, and the message quotes the first such field as it is written; the
  run then returns an error and neither prints nor writes a text (with an empty type
  specification it has ended before, with the usage message).
\<close>

theorem getMethodsMap_all_or_fatal:
  "(\<exists>methodsMap. getMethodsMap utitle [] = Inr methodsMap
       \<and> dom methodsMap = name ` set (generators utitle)
       \<and> (\<forall>gen \<in> set (generators utitle). methodsMap (name gen) = Some True))
   \<and> (methodsStr \<noteq> [] \<and> (\<exists>t \<in> set (strings_Split methodsStr (CHR '','')). t \<notin> name ` set (generators utitle)) \<longrightarrow>
        (\<exists>pre t post.
            strings_Split methodsStr (CHR '','') = pre @ t # post
          \<and> set pre \<subseteq> name ` set (generators utitle) \<and> t \<notin> name ` set (generators utitle)
          \<and> getMethodsMap utitle methodsStr =
              Inl (Fatal (''Error: -method parameter '' @ [CHR 0x27] @ t @ [CHR 0x27] @ '' is not valid''))
          \<and> main utitle Source WriteFile packageName types methodsStr outputName testrun ks ord =
              (if types = [] then Inl Usage
               else Inl (Fatal (''Error: -method parameter '' @ [CHR 0x27] @ t @ [CHR 0x27] @ '' is not valid'')))))"
proof (intro conjI impI)
  show "\<exists>methodsMap. getMethodsMap utitle [] = Inr methodsMap
       \<and> dom methodsMap = name ` set (generators utitle)
       \<and> (\<forall>gen \<in> set (generators utitle). methodsMap (name gen) = Some True)"
    by (auto simp: getMethodsMap_def validMethods_eq dom_def)
next
  let ?valid = "\<lambda>n. if n \<in> name ` set (generators utitle) then Some True else None"
  let ?msg = "\<lambda>t. ''Error: -method parameter '' @ [CHR 0x27] @ t @ [CHR 0x27] @ '' is not valid''"
  assume h: "methodsStr \<noteq> [] \<and> (\<exists>t \<in> set (strings_Split methodsStr (CHR '','')). t \<notin> name ` set (generators utitle))"
  then obtain pre t post where
    d: "strings_Split methodsStr (CHR '','') = pre @ t # post"
    and t: "t \<notin> name ` set (generators utitle)"
    and pre: "\<forall>y\<in>set pre. \<not> y \<notin> name ` set (generators utitle)"
    using split_list_first_prop [of "strings_Split methodsStr (CHR '','')" "\<lambda>t. t \<notin> name ` set (generators utitle)"]
    by blast
  have "selectMethods ?valid Map.empty (pre @ t # post) = Inl (Fatal (?msg t))"
    using pre t by (intro selectMethods_first_invalid) auto
  then have g: "getMethodsMap utitle methodsStr = Inl (Fatal (?msg t))"
    using h by (simp add: getMethodsMap_def validMethods_eq d)
  have "main utitle Source WriteFile packageName types methodsStr outputName testrun ks ord =
      (if types = [] then Inl Usage else Inl (Fatal (?msg t)))"
    by (simp add: main_def g)
  with d t pre g show "\<exists>pre t post.
            strings_Split methodsStr (CHR '','') = pre @ t # post
          \<and> set pre \<subseteq> name ` set (generators utitle) \<and> t \<notin> name ` set (generators utitle)
          \<and> getMethodsMap utitle methodsStr = Inl (Fatal (?msg t))
          \<and> main utitle Source WriteFile packageName types methodsStr outputName testrun ks ord =
              (if types = [] then Inl Usage else Inl (Fatal (?msg t)))"
    by blast
qed

text \<open>
  The theorem for the methods \<^verbatim>\<open>Map,Foo,Bar\<close>: the message names \<^verbatim>\<open>Foo\<close>, the first
  field that the registry does not have.
\<close>

theorem getMethodsMap_all_or_fatal_witness:
  "''Foo'' \<in> set (strings_Split ''Map,Foo,Bar'' (CHR '','')) \<and> ''Foo'' \<notin> name ` set (generators (\<lambda>s. s))
   \<and> getMethodsMap (\<lambda>s. s) ''Map,Foo,Bar'' =
       Inl (Fatal (''Error: -method parameter '' @ [CHR 0x27] @ ''Foo'' @ [CHR 0x27] @ '' is not valid''))
   \<and> main (\<lambda>s. s) Inr (\<lambda>_ _. None) ''main'' ''int'' ''Map,Foo,Bar'' ''fungen_auto.go'' False [''int''] (\<lambda>_ _. [''int'']) =
       Inl (Fatal (''Error: -method parameter '' @ [CHR 0x27] @ ''Foo'' @ [CHR 0x27] @ '' is not valid''))"
proof -
  have sp: "strings_Split ''Map,Foo,Bar'' (CHR '','') = [''Map'', ''Foo'', ''Bar'']" by simp
  have names: "name ` set (generators (\<lambda>s. s)) = {''Map'', ''PMap'', ''Filter'', ''PFilter'', ''Reduce'',
      ''ReduceRight'', ''Take'', ''TakeWhile'', ''Drop'', ''DropWhile'', ''Each'', ''EachI'', ''All'', ''Any''}"
    by (simp add: generators_def)
  have foo: "''Foo'' \<notin> name ` set (generators (\<lambda>s. s))" and bar: "''Bar'' \<notin> name ` set (generators (\<lambda>s. s))"
    and mp: "''Map'' \<in> name ` set (generators (\<lambda>s. s))"
    by (simp_all add: names)
  have hyp: "''Map,Foo,Bar'' \<noteq> [] \<and> (\<exists>t \<in> set (strings_Split ''Map,Foo,Bar'' (CHR '','')). t \<notin> name ` set (generators (\<lambda>s. s)))"
    using foo by (simp add: sp)
  from getMethodsMap_all_or_fatal [where methodsStr = "''Map,Foo,Bar''" and utitle = "\<lambda>s. s"
      and Source = Inr and WriteFile = "\<lambda>_ _. None" and packageName = "''main''"
      and types = "''int''" and outputName = "''fungen_auto.go''" and testrun = False
      and ks = "[''int'']" and ord = "\<lambda>_ _. [''int'']", THEN conjunct2, rule_format, OF hyp]
  obtain pre t post where
    d: "[''Map'', ''Foo'', ''Bar''] = pre @ t # post"
    and p: "set pre \<subseteq> name ` set (generators (\<lambda>s. s))" and t: "t \<notin> name ` set (generators (\<lambda>s. s))"
    and g: "getMethodsMap (\<lambda>s. s) ''Map,Foo,Bar'' =
       Inl (Fatal (''Error: -method parameter '' @ [CHR 0x27] @ t @ [CHR 0x27] @ '' is not valid''))"
    and m: "main (\<lambda>s. s) Inr (\<lambda>_ _. None) ''main'' ''int'' ''Map,Foo,Bar'' ''fungen_auto.go'' False [''int''] (\<lambda>_ _. [''int'']) =
       (if ''int'' = [] then Inl Usage else Inl (Fatal (''Error: -method parameter '' @ [CHR 0x27] @ t @ [CHR 0x27] @ '' is not valid'')))"
    unfolding sp by blast
  have "t = ''Foo''"
  proof (cases pre)
    case Nil
    with d t mp show ?thesis by simp
  next
    case (Cons a pre')
    note c1 = Cons
    show ?thesis
    proof (cases pre')
      case Nil
      with d c1 show ?thesis by simp
    next
      case (Cons b pre'')
      with d c1 p foo show ?thesis by auto
    qed
  qed
  with g m foo show ?thesis by (simp add: sp)
qed
subsection \<open>The import of sync\<close>









section \<open>Properties of the generated methods\<close>

subsection \<open>Take and Drop\<close>

lemma sliceTo_len: "sliceTo l (len l) = Inr l"
  by (simp add: sliceTo_def len_def cap_def)

lemma sliceTo_prefix:
  "0 \<le> n \<Longrightarrow> n \<le> len l \<Longrightarrow>
   sliceTo l n = Inr \<lparr>elems = take (nat n) (elems l), spare = drop (nat n) (elems l) @ spare l\<rparr>"
  by (simp add: sliceTo_def len_def cap_def)

text \<open>
  Claim C5, as the methods have it. On a list of length \<^verbatim>\<open>L\<close> and for \<^verbatim>\<open>n\<close> not below
  zero: if \<^verbatim>\<open>n >= L\<close> then \<^verbatim>\<open>Take\<close> returns the list itself and \<^verbatim>\<open>Drop\<close> an empty list;
  if \<^verbatim>\<open>n < L\<close> then \<^verbatim>\<open>Take\<close> returns the first \<^verbatim>\<open>n\<close> members and \<^verbatim>\<open>Drop\<close> the other
  \<^verbatim>\<open>L - n\<close>.
\<close>

theorem Take_Drop_nonneg:
  assumes "0 \<le> n"
  shows "(n \<ge> len l \<longrightarrow> Take l n = Inr l \<and> (\<exists>r. Drop l n = Inr r \<and> elems r = []))
       \<and> (n < len l \<longrightarrow>
            (\<exists>r. Take l n = Inr r \<and> elems r = take (nat n) (elems l) \<and> int (length (elems r)) = n)
          \<and> (\<exists>r. Drop l n = Inr r \<and> elems r = drop (nat n) (elems l)
                  \<and> int (length (elems r)) = len l - n))"
proof (intro conjI impI)
  assume ge: "n \<ge> len l"
  show "Take l n = Inr l"
  proof (cases "n = len l")
    case True
    then show ?thesis by (simp add: Take_def sliceTo_len)
  next
    case False
    with ge show ?thesis by (simp add: Take_def)
  qed
  show "\<exists>r. Drop l n = Inr r \<and> elems r = []"
  proof (cases "n = len l")
    case True
    then show ?thesis by (simp add: Drop_def sliceFrom_def len_def)
  next
    case False
    with ge show ?thesis by (simp add: Drop_def nilSlice_def)
  qed
next
  assume lt: "n < len l"
  show "\<exists>r. Take l n = Inr r \<and> elems r = take (nat n) (elems l) \<and> int (length (elems r)) = n"
    using assms lt by (simp add: Take_def sliceTo_prefix) (simp add: len_def)
  show "\<exists>r. Drop l n = Inr r \<and> elems r = drop (nat n) (elems l)
           \<and> int (length (elems r)) = len l - n"
    using assms lt by (simp add: Drop_def sliceFrom_def) (simp add: len_def)
qed

text \<open>The theorem at \<^verbatim>\<open>n = 5\<close> and at \<^verbatim>\<open>n = 2\<close> on a list of three members.\<close>

theorem Take_Drop_nonneg_witness:
  "Take \<lparr>elems = [1, 2, 3 :: int], spare = []\<rparr> 5 = Inr \<lparr>elems = [1, 2, 3], spare = []\<rparr>
   \<and> (\<exists>r. Drop \<lparr>elems = [1, 2, 3 :: int], spare = []\<rparr> 5 = Inr r \<and> elems r = [])
   \<and> (\<exists>r. Take \<lparr>elems = [1, 2, 3 :: int], spare = []\<rparr> 2 = Inr r \<and> elems r = [1, 2])
   \<and> (\<exists>r. Drop \<lparr>elems = [1, 2, 3 :: int], spare = []\<rparr> 2 = Inr r \<and> elems r = [3])"
  using Take_Drop_nonneg [of 5 "\<lparr>elems = [1, 2, 3 :: int], spare = []\<rparr>"]
        Take_Drop_nonneg [of 2 "\<lparr>elems = [1, 2, 3 :: int], spare = []\<rparr>"]
  by (auto simp: len_def)

text \<open>
  Without the bound from below the claim fails: \<^verbatim>\<open>-1\<close> is less than the length of a list
  of three members, and there \<^verbatim>\<open>Take\<close> and \<^verbatim>\<open>Drop\<close> return nothing, they panic.
\<close>

theorem Take_negative_counterexample:
  "(-1 :: int) < len \<lparr>elems = [1, 2, 3 :: int], spare = []\<rparr>
   \<and> Take \<lparr>elems = [1, 2, 3 :: int], spare = []\<rparr> (-1) = Inl SliceBoundsOutOfRange
   \<and> Drop \<lparr>elems = [1, 2, 3 :: int], spare = []\<rparr> (-1) = Inl SliceBoundsOutOfRange"
  by (simp add: Take_def Drop_def sliceTo_def sliceFrom_def len_def cap_def)

text \<open>
  Claim C8. The slices that \<^verbatim>\<open>Take\<close> and \<^verbatim>\<open>Drop\<close> take are in bounds exactly when
  \<^verbatim>\<open>n\<close> is not negative. For \<^verbatim>\<open>n >= 0\<close> the branch under the guard \<^verbatim>\<open>len(l) >= n\<close> has
  \<^verbatim>\<open>0 <= n <= len(l)\<close>, both slice expressions succeed and both methods return. For
  \<^verbatim>\<open>n < 0\<close> the guard always holds, \<^verbatim>\<open>l[:n]\<close> and \<^verbatim>\<open>l[n:]\<close> are out of range and both
  methods panic.
\<close>

theorem Take_Drop_total_iff_nonneg:
  "(0 \<le> n \<longrightarrow>
      (len l \<ge> n \<longrightarrow> 0 \<le> n \<and> n \<le> len l \<and> (\<exists>r. sliceTo l n = Inr r) \<and> (\<exists>r. sliceFrom l n = Inr r))
      \<and> (\<exists>r. Take l n = Inr r) \<and> (\<exists>r. Drop l n = Inr r))
   \<and> (n < 0 \<longrightarrow>
      len l \<ge> n
      \<and> sliceTo l n = Inl SliceBoundsOutOfRange \<and> sliceFrom l n = Inl SliceBoundsOutOfRange
      \<and> Take l n = Inl SliceBoundsOutOfRange \<and> Drop l n = Inl SliceBoundsOutOfRange)"
proof (intro conjI impI)
  assume "n < 0"
  then show "len l \<ge> n" by (simp add: len_def)
  then show "Take l n = Inl SliceBoundsOutOfRange" using \<open>n < 0\<close>
    by (simp add: Take_def sliceTo_def)
  show "Drop l n = Inl SliceBoundsOutOfRange" using \<open>n < 0\<close> \<open>len l \<ge> n\<close>
    by (simp add: Drop_def sliceFrom_def)
  show "sliceTo l n = Inl SliceBoundsOutOfRange" using \<open>n < 0\<close> by (simp add: sliceTo_def)
  show "sliceFrom l n = Inl SliceBoundsOutOfRange" using \<open>n < 0\<close> by (simp add: sliceFrom_def)
next
  assume n: "0 \<le> n"
  show "0 \<le> n" by fact
  show "\<exists>r. Take l n = Inr r" using n by (simp add: Take_def sliceTo_def len_def cap_def)
  show "\<exists>r. Drop l n = Inr r" using n by (simp add: Drop_def sliceFrom_def)
  assume g: "len l \<ge> n"
  show "n \<le> len l" by fact
  show "\<exists>r. sliceTo l n = Inr r" using n g by (simp add: sliceTo_def len_def cap_def)
  show "\<exists>r. sliceFrom l n = Inr r" using n g by (simp add: sliceFrom_def)
qed

text \<open>The theorem at \<^verbatim>\<open>n = 2\<close> and at \<^verbatim>\<open>n = -2\<close>.\<close>

theorem Take_Drop_total_iff_nonneg_witness:
  "(\<exists>r. Take \<lparr>elems = [1, 2, 3 :: int], spare = [4]\<rparr> 2 = Inr r)
   \<and> (\<exists>r. Drop \<lparr>elems = [1, 2, 3 :: int], spare = [4]\<rparr> 2 = Inr r)
   \<and> Take \<lparr>elems = [1, 2, 3 :: int], spare = [4]\<rparr> (-2) = Inl SliceBoundsOutOfRange
   \<and> Drop \<lparr>elems = [1, 2, 3 :: int], spare = [4]\<rparr> (-2) = Inl SliceBoundsOutOfRange"
  using Take_Drop_total_iff_nonneg [of 2 "\<lparr>elems = [1, 2, 3 :: int], spare = [4]\<rparr>"]
        Take_Drop_total_iff_nonneg [of "-2" "\<lparr>elems = [1, 2, 3 :: int], spare = [4]\<rparr>"]
  by simp
subsection \<open>Reduce and ReduceRight\<close>

lemma Reduce_range_foldl: "Reduce_range f t1 ts = foldl f t1 ts"
  by (induction ts arbitrary: t1) simp_all

text \<open>
  The loop of \<^verbatim>\<open>ReduceRight\<close> started at index \<^verbatim>\<open>n - 1\<close> folds the first \<^verbatim>\<open>n\<close> members
  from the right, and no index it reads is out of range.
\<close>

lemma ReduceRight_for_prefix:
  "n \<le> length (elems l) \<Longrightarrow>
   ReduceRight_for l f (int n - 1) t1 = Inr (foldr f (take n (elems l)) t1)"
proof (induction n arbitrary: t1)
  case 0
  show ?case by (simp add: ReduceRight_for.simps [of l f "-1"])
next
  case (Suc n)
  have idx: "index l (int n) = Inr (elems l ! n)"
    using Suc.prems by (simp add: index_def len_def)
  have step: "ReduceRight_for l f (int n) t1 =
      ReduceRight_for l f (int n - 1) (f (elems l ! n) t1)"
    by (subst ReduceRight_for.simps) (simp add: idx)
  have tk: "take (Suc n) (elems l) = take n (elems l) @ [elems l ! n]"
    using Suc.prems by (simp add: take_Suc_conv_app_nth)
  show ?case
    using Suc.IH [of "f (elems l ! n) t1"] Suc.prems by (simp add: step tk)
qed

text \<open>
  Claim C9. \<^verbatim>\<open>Reduce\<close> and \<^verbatim>\<open>ReduceRight\<close> give their arguments to the combining
  function in opposite orders: for every list, seed and function, \<^verbatim>\<open>Reduce\<close> is the left
  fold, which applies \<^verbatim>\<open>f\<close> to the accumulator and the member from left to right, and
  \<^verbatim>\<open>ReduceRight\<close> returns the right fold, which applies \<^verbatim>\<open>f\<close> to the member and the
  accumulator from right to left.
\<close>

theorem Reduce_ReduceRight_folds:
  "Reduce l seed f = foldl f seed (elems l) \<and>
   ReduceRight l seed f = Inr (foldr f (elems l) seed)"
  using ReduceRight_for_prefix [of "length (elems l)" l f seed]
  by (simp add: Reduce_def Reduce_range_foldl ReduceRight_def len_def)

subsection \<open>TakeWhile and DropWhile\<close>

text \<open>
  Both loops, started at the index \<^verbatim>\<open>length pre\<close> with the members \<^verbatim>\<open>ts\<close> still to
  visit, cut the list at the first member of \<^verbatim>\<open>ts\<close> that fails the predicate.
\<close>

lemma TakeWhile_range_split:
  "elems l = pre @ ts \<Longrightarrow>
   TakeWhile_range l p (int (length pre)) ts =
     (if \<forall>x\<in>set ts. p x then Inr l
      else Inr \<lparr>elems = take (length pre + length (takeWhile p ts)) (elems l),
               spare = drop (length pre + length (takeWhile p ts)) (elems l) @ spare l\<rparr>)"
proof (induction ts arbitrary: pre)
  case Nil
  then show ?case by simp
next
  case (Cons t ts)
  have e: "elems l = (pre @ [t]) @ ts" using Cons.prems by simp
  show ?case
  proof (cases "p t")
    case True
    then show ?thesis using Cons.IH [OF e] by (simp add: add.commute)
  next
    case False
    have "sliceTo l (int (length pre)) =
        Inr \<lparr>elems = take (length pre) (elems l), spare = drop (length pre) (elems l) @ spare l\<rparr>"
      using Cons.prems sliceTo_prefix [of "int (length pre)" l] by (simp add: len_def)
    with False show ?thesis by simp
  qed
qed

lemma DropWhile_range_split:
  "elems l = pre @ ts \<Longrightarrow>
   DropWhile_range l p (int (length pre)) ts =
     (if \<forall>x\<in>set ts. p x then Inr nilSlice
      else Inr \<lparr>elems = drop (length pre + length (takeWhile p ts)) (elems l), spare = spare l\<rparr>)"
proof (induction ts arbitrary: pre)
  case Nil
  then show ?case by simp
next
  case (Cons t ts)
  have e: "elems l = (pre @ [t]) @ ts" using Cons.prems by simp
  show ?case
  proof (cases "p t")
    case True
    then show ?thesis using Cons.IH [OF e] by (simp add: add.commute)
  next
    case False
    have "sliceFrom l (int (length pre)) = Inr \<lparr>elems = drop (length pre) (elems l), spare = spare l\<rparr>"
      using Cons.prems by (simp add: sliceFrom_def len_def)
    with False show ?thesis by simp
  qed
qed

text \<open>
  Claim C10. For every list and predicate, \<^verbatim>\<open>TakeWhile\<close> and \<^verbatim>\<open>DropWhile\<close> cut the list
  at the same index \<^verbatim>\<open>i\<close>, that of the first member failing the predicate: \<^verbatim>\<open>TakeWhile\<close>
  returns \<^verbatim>\<open>l[:i]\<close> and \<^verbatim>\<open>DropWhile\<close> returns \<^verbatim>\<open>l[i:]\<close>; when no member fails,
  \<^verbatim>\<open>TakeWhile\<close> returns the list and \<^verbatim>\<open>DropWhile\<close> the nil list. The result of
  \<^verbatim>\<open>TakeWhile\<close> followed by that of \<^verbatim>\<open>DropWhile\<close> is the list.
\<close>

theorem TakeWhile_DropWhile_split:
  "\<exists>i a b. TakeWhile l p = Inr a \<and> DropWhile l p = Inr b
     \<and> i \<le> length (elems l)
     \<and> (\<forall>j<i. p (elems l ! j))
     \<and> (i < length (elems l) \<longrightarrow> \<not> p (elems l ! i))
     \<and> elems a = take i (elems l) \<and> elems b = drop i (elems l)
     \<and> (i = length (elems l) \<longrightarrow> a = l \<and> b = nilSlice)
     \<and> elems a @ elems b = elems l"
proof -
  let ?i = "length (takeWhile p (elems l))"
  have tw: "TakeWhile l p =
     (if \<forall>x\<in>set (elems l). p x then Inr l
      else Inr \<lparr>elems = take ?i (elems l), spare = drop ?i (elems l) @ spare l\<rparr>)"
    using TakeWhile_range_split [of l "[]" "elems l" p] by (simp add: TakeWhile_def)
  have dw: "DropWhile l p =
     (if \<forall>x\<in>set (elems l). p x then Inr nilSlice
      else Inr \<lparr>elems = drop ?i (elems l), spare = spare l\<rparr>)"
    using DropWhile_range_split [of l "[]" "elems l" p] by (simp add: DropWhile_def)
  have le: "?i \<le> length (elems l)" by (rule length_takeWhile_le)
  have before: "\<forall>j<?i. p (elems l ! j)"
  proof (intro allI impI)
    fix j assume j: "j < ?i"
    then have "takeWhile p (elems l) ! j \<in> set (takeWhile p (elems l))" by simp
    then have "p (takeWhile p (elems l) ! j)" by (rule set_takeWhileD [THEN conjunct2])
    then show "p (elems l ! j)" using j by (simp add: takeWhile_nth)
  qed
  have at: "?i < length (elems l) \<longrightarrow> \<not> p (elems l ! ?i)"
    by (simp add: nth_length_takeWhile)
  show ?thesis
  proof (cases "\<forall>x\<in>set (elems l). p x")
    case True
    then have i: "?i = length (elems l)" by (simp add: takeWhile_eq_all_conv [THEN iffD2])
    show ?thesis
      apply (rule exI [of _ ?i], rule exI [of _ l], rule exI [of _ nilSlice])
      using True i before by (simp add: tw dw nilSlice_def)
  next
    case False
    then have "dropWhile p (elems l) \<noteq> []" by (simp add: dropWhile_eq_Nil_conv)
    then have "0 < length (dropWhile p (elems l))" by simp
    moreover have "?i + length (dropWhile p (elems l)) = length (elems l)"
      by (simp add: length_append [symmetric] del: length_append)
    ultimately have i: "?i < length (elems l)" by linarith
    have twF: "TakeWhile l p = Inr \<lparr>elems = take ?i (elems l), spare = drop ?i (elems l) @ spare l\<rparr>"
      by (subst tw) (simp only: False if_False)
    have dwF: "DropWhile l p = Inr \<lparr>elems = drop ?i (elems l), spare = spare l\<rparr>"
      by (subst dw) (simp only: False if_False)
    show ?thesis
      apply (rule exI [of _ ?i])
      apply (rule exI [of _ "\<lparr>elems = take ?i (elems l), spare = drop ?i (elems l) @ spare l\<rparr>"])
      apply (rule exI [of _ "\<lparr>elems = drop ?i (elems l), spare = spare l\<rparr>"])
      using i before at by (simp add: twF dwF)
  qed
qed

text \<open>The theorem on the list 1, 2, 3 with the predicate "less than 2": the cut is at index 1.\<close>

theorem TakeWhile_DropWhile_split_witness:
  "\<exists>a b. TakeWhile \<lparr>elems = [1, 2, 3 :: int], spare = []\<rparr> (\<lambda>x. x < 2) = Inr a
       \<and> DropWhile \<lparr>elems = [1, 2, 3 :: int], spare = []\<rparr> (\<lambda>x. x < 2) = Inr b
       \<and> elems a = [1] \<and> elems b = [2, 3] \<and> elems a @ elems b = [1, 2, 3]"
  using TakeWhile_DropWhile_split [of "\<lparr>elems = [1, 2, 3 :: int], spare = []\<rparr>" "\<lambda>x. x < 2"]
  by (simp add: TakeWhile_def DropWhile_def sliceTo_def sliceFrom_def len_def cap_def)

end
